theory Spec2Isabelle
  imports Main
begin

section \<open>FinanceTracker: document ingestion, extraction and ledger merge\<close>

text \<open>
  A shallow embedding of \<^verbatim>\<open>src/services/openai.ts\<close>, of the state-changing functions
  of \<^verbatim>\<open>src/components/BillsReceiptsManager.tsx\<close> and of \<^verbatim>\<open>handleAddTransactions\<close>
  in the \<^verbatim>\<open>App\<close> component.

  Conventions.
  \<^item> A TypeScript interface is a record, a union of string literals a datatype. Field names
    are the source's, with a short prefix where two interfaces share a name
    (\<open>id\<close>, \<open>type\<close>, \<open>date\<close>, ...).
  \<^item> A JavaScript \<^verbatim>\<open>number\<close> is an IEEE double. Its type is the type variable \<open>'n\<close>, and
    the few operations the source applies to numbers (decimal literals, \<open>+\<close>,
    \<^verbatim>\<open>toFixed\<close>, conversion to a string) are the fields of a \<open>numerics\<close> record handed
    to the functions that need them.
  \<^item> What the platform supplies is an argument: \<^verbatim>\<open>fetch\<close>, \<^verbatim>\<open>JSON.parse\<close>,
    \<^verbatim>\<open>JSON.stringify\<close>, the clock, \<^verbatim>\<open>Math.random\<close>, the \<^verbatim>\<open>FileReader\<close> result.
  \<^item> A thrown error is the \<open>Inl\<close> of a sum. A function that talks to the network returns
    an \<open>io\<close> record: the requests it handed to \<^verbatim>\<open>fetch\<close>, the lines it wrote to the
    console, and its result.
  \<^item> An \<^verbatim>\<open>async\<close> function that awaits a network call is cut at the \<^verbatim>\<open>await\<close>: the part
    after it is a function of the awaited outcome and of the state found at that moment
    (React's functional update \<^verbatim>\<open>setX(prev => ...)\<close>).
\<close>

subsection \<open>JavaScript helpers\<close>

text \<open>\<^verbatim>\<open>Array.prototype.join\<close> on an array of strings.\<close>

fun join :: "string \<Rightarrow> string list \<Rightarrow> string" where
  "join sep [] = []"
| "join sep [x] = x"
| "join sep (x # y # ys) = x @ sep @ join sep (y # ys)"

text \<open>
  \<^verbatim>\<open>xs.slice(-n)\<close> for \<open>n > 0\<close>: the start index is \<open>max (length - n) 0\<close>, which
  is what the truncating subtraction of \<open>nat\<close> computes.
\<close>

definition slice_neg :: "nat \<Rightarrow> 'a list \<Rightarrow> 'a list" where
  "slice_neg n xs = drop (length xs - n) xs"

text \<open>\<^verbatim>\<open>Number.prototype.toString\<close> on a non-negative integer such as \<^verbatim>\<open>Date.now()\<close>.\<close>

fun show_nat :: "nat \<Rightarrow> string" where
  "show_nat n =
     (if n < 10 then [''0123456789'' ! n]
      else show_nat (n div 10) @ [''0123456789'' ! (n mod 10)])"

definition newline :: string where
  "newline = [CHR 0x0A]"

record 'n numerics =
  lit :: "string \<Rightarrow> 'n"  \<comment> \<open>the double a decimal literal of the source denotes\<close>
  add :: "'n \<Rightarrow> 'n \<Rightarrow> 'n"  \<comment> \<open>\<^verbatim>\<open>+\<close> on numbers\<close>
  toFixed :: "'n \<Rightarrow> nat \<Rightarrow> string"  \<comment> \<open>\<^verbatim>\<open>x.toFixed(d)\<close>\<close>
  toString :: "'n \<Rightarrow> string"  \<comment> \<open>a number inside a template literal\<close>

text \<open>Values \<^verbatim>\<open>JSON.parse\<close> can return.\<close>

datatype 'n json =
  JNull
| JBool bool
| JNum 'n
| JStr string
| JArr "'n json list"
| JObj "(string \<times> 'n json) list"

subsection \<open>\<^verbatim>\<open>types/index.ts\<close> and the interfaces of \<^verbatim>\<open>openai.ts\<close>\<close>

datatype tx_type = Income | Expense

record 'n Transaction =
  tx_id :: string
  tx_date :: string
  tx_amount :: 'n
  tx_category :: string
  tx_description :: string
  tx_type :: tx_type

text \<open>The element type of \<^verbatim>\<open>TransactionExtraction.transactions\<close>.\<close>

record 'n RawTransaction =
  rt_date :: string
  rt_amount :: 'n
  rt_category :: string
  rt_description :: string
  rt_type :: tx_type

datatype document_type = Receipt | Bill | Invoice | Statement | Other

text \<open>
  \<open>extractTransactionsFromImage\<close> returns what \<^verbatim>\<open>JSON.parse\<close> made of the answer,
  unchecked, under the type \<^verbatim>\<open>TransactionExtraction\<close>. So the value need not have the
  declared shape:
  \<^item> it can be \<^verbatim>\<open>null\<close> (\<open>Null_payload\<close>), and reading a field of it throws;
  \<^item> a field of the interface can be missing (\<open>None\<close>); a number, a string or a boolean
    in the place of the object is a payload with every field missing;
  \<^item> \<open>transactions\<close> is \<open>None\<close> whenever there is no array in that field: no value made
    by \<^verbatim>\<open>JSON.parse\<close> but an array has a \<^verbatim>\<open>map\<close> method, so the call
    \<^verbatim>\<open>result.transactions.map(...)\<close> throws in all these cases;
  \<^item> an element of \<open>transactions\<close> can be \<^verbatim>\<open>null\<close> (\<open>None\<close>);
  \<^item> \<^verbatim>\<open>isValidDocument\<close> is only ever tested with \<^verbatim>\<open>!\<close>: the field holds the outcome
    of that test, which is \<open>False\<close> for a missing field too.

  Any other field or element that is present is taken to have the type the interface
  declares. The \<^verbatim>\<open>try\<close> block of \<open>processFile\<close> only copies these, which does not throw
  whatever they hold.
\<close>

record 'n TransactionExtraction =
  transactions :: "'n RawTransaction option list option"
  analysis :: "string option"
  confidence :: "'n option"
  isValidDocument :: bool
  documentType :: "document_type option"
  rejectionReason :: "string option"

datatype 'n parsed =
  Null_payload  \<comment> \<open>\<^verbatim>\<open>JSON.parse\<close> returned \<^verbatim>\<open>null\<close>\<close>
| Payload "'n TransactionExtraction"

record ChatResponse =
  cr_message :: string
  suggestions :: "string list option"

subsection \<open>The network\<close>

datatype role = System | User

datatype part = TextPart string | ImageUrlPart string

datatype content = Text string | Parts "part list"

record message =
  msg_role :: role
  msg_content :: content

text \<open>
  A request is the object handed to \<^verbatim>\<open>JSON.stringify\<close> for the body, with the bearer
  token of the \<^verbatim>\<open>Authorization\<close> header. \<open>temperature\<close> holds the source's literal.
\<close>

record request =
  bearer :: string
  model :: string
  messages :: "message list"
  max_tokens :: nat
  temperature :: string

text \<open>
  What \<^verbatim>\<open>fetch\<close> and \<^verbatim>\<open>response.json()\<close> can do. A choice of the decoded body is
  represented by the value of its \<^verbatim>\<open>?.message?.content\<close> chain: \<open>None\<close> when the
  chain yields \<^verbatim>\<open>undefined\<close> or \<^verbatim>\<open>null\<close>.
\<close>

datatype body =
  NotJson  \<comment> \<open>\<^verbatim>\<open>response.json()\<close> rejects\<close>
| NoChoices  \<comment> \<open>the decoded body has no \<^verbatim>\<open>choices\<close> array\<close>
| Data (choices: "string option list")

datatype fetch_result =
  Rejected  \<comment> \<open>the promise of \<^verbatim>\<open>fetch\<close> rejects: the call did not complete\<close>
| Response (response_ok: bool) (response_status: nat) (response_text: string) (response_json: body)

text \<open>
  The errors the three service functions can throw, one constructor per \<^verbatim>\<open>throw\<close> or
  rejecting call of the source.
\<close>

datatype service_error =
  ApiKeyNotConfigured  \<comment> \<open>\<^verbatim>\<open>new Error('OpenAI API key not configured')\<close>\<close>
| FetchRejected  \<comment> \<open>\<^verbatim>\<open>await fetch(...)\<close> rejects\<close>
| ApiError nat  \<comment> \<open>\<^verbatim>\<open>new Error(`OpenAI API error: ${response.status}`)\<close>\<close>
| ResponseNotJson  \<comment> \<open>\<^verbatim>\<open>await response.json()\<close> rejects\<close>
| ChoicesUndefined  \<comment> \<open>the \<^verbatim>\<open>TypeError\<close> of \<^verbatim>\<open>data.choices[0]\<close> on a body without choices\<close>
| NoResponse  \<comment> \<open>\<^verbatim>\<open>new Error('No response from OpenAI')\<close>\<close>
| ContentNotJson  \<comment> \<open>\<^verbatim>\<open>JSON.parse(content)\<close> throws\<close>

record 'a io =
  sent :: "request list"
  logged :: "string list"
  returned :: 'a

text \<open>
  \<^verbatim>\<open>!x\<close> for a value that is \<^verbatim>\<open>undefined\<close>/\<^verbatim>\<open>null\<close> or a string: it holds for
  \<^verbatim>\<open>undefined\<close> and for the empty string. \<^verbatim>\<open>OPENAI_API_KEY\<close> is
  \<^verbatim>\<open>import.meta.env.VITE_OPENAI_API_KEY\<close>, such a value.
\<close>

definition falsy :: "string option \<Rightarrow> bool" where
  "falsy x = (case x of None \<Rightarrow> True | Some s \<Rightarrow> s = [])"

text \<open>A string inside a template literal; \<^verbatim>\<open>undefined\<close> prints as its name.\<close>

definition template :: "string option \<Rightarrow> string" where
  "template x = (case x of None \<Rightarrow> ''undefined'' | Some s \<Rightarrow> s)"

text \<open>The module's top-level check, run once when \<^verbatim>\<open>openai.ts\<close> is loaded.\<close>

definition module_load :: "string option \<Rightarrow> string list" where
  "module_load OPENAI_API_KEY =
     (if falsy OPENAI_API_KEY
      then [''OpenAI API key not found. AI features will be disabled.'']
      else [])"

text \<open>\<^verbatim>\<open>data.choices[0]?.message?.content\<close>.\<close>

definition first_content :: "string option list \<Rightarrow> string option" where
  "first_content cs = (case cs of [] \<Rightarrow> None | c # _ \<Rightarrow> c)"

subsection \<open>\<^verbatim>\<open>extractTransactionsFromImage\<close>\<close>

definition extraction_system_prompt :: string where
  "extraction_system_prompt = join newline
    [''You are a financial assistant that analyzes and extracts transaction data from receipts, bills, invoices, and financial statements.'',
     ''            '',
     ''            FIRST: Determine if this is a valid financial document (receipt, bill, invoice, bank statement, etc.)'',
     ''            REJECT if the image contains:'',
     ''            - Non-financial content (photos, memes, random text, etc.)'',
     ''            - Unreadable or corrupted images'',
     ''            - Documents not related to financial transactions'',
     ''            '',
     ''            IF VALID: Extract ALL transactions from the document. Many receipts contain multiple items/transactions.'',
     ''            '',
     ''            Return a JSON object with:'',
     ''            - isValidDocument: boolean (true only for receipts, bills, invoices, statements)'',
     ''            - documentType: 'receipt' | 'bill' | 'invoice' | 'statement' | 'other'' @ [CHR 0x27],
     ''            - rejectionReason: string (if isValidDocument is false, explain why)'',
     ''            - transactions: array of ALL transactions found {date, amount, category, description, type}'',
     ''            - analysis: detailed explanation of what you found and extracted'',
     ''            - confidence: number 0-1 indicating confidence in extraction'',
     ''            '',
     ''            Categories should be one of: food, transportation, education, entertainment, shopping, health, utilities, rent, income, other'',
     ''            Type should be 'expense' or 'income'' @ [CHR 0x27],
     ''            Use today's date if date is unclear.'',
     ''            '',
     ''            For receipts with multiple items, create separate transactions for each significant item or group similar items.'',
     ''            For bills, extract each line item as a separate transaction if they represent different services.'']"

definition extraction_request :: "string option \<Rightarrow> string \<Rightarrow> request" where
  "extraction_request OPENAI_API_KEY imageData =
     \<lparr>bearer = template OPENAI_API_KEY,
      model = ''gpt-4-turbo'',
      messages =
        [\<lparr>msg_role = System, msg_content = Text extraction_system_prompt\<rparr>,
         \<lparr>msg_role = User, msg_content = Parts
            [TextPart ''Please analyze this image and extract all transaction information if it is a valid financial document (receipt, bill, invoice, or statement). If it is not a financial document, reject it with an explanation.'',
             ImageUrlPart imageData]\<rparr>],
      max_tokens = 1000,
      temperature = ''0.1''\<rparr>"

text \<open>
  The body of the \<^verbatim>\<open>try\<close> block after the request is built. \<open>JSON_parse\<close> returns
  \<open>None\<close> where \<^verbatim>\<open>JSON.parse\<close> throws; what it returns otherwise is returned as it
  is.
\<close>

definition extraction_try ::
  "(string \<Rightarrow> 'n parsed option) \<Rightarrow> fetch_result \<Rightarrow> service_error + 'n parsed" where
  "extraction_try JSON_parse response =
     (case response of
        Rejected \<Rightarrow> Inl FetchRejected
      | Response ok st txt js \<Rightarrow>
          if \<not> ok then Inl (ApiError st)
          else (case js of
                  NotJson \<Rightarrow> Inl ResponseNotJson
                | NoChoices \<Rightarrow> Inl ChoicesUndefined
                | Data cs \<Rightarrow>
                    (case first_content cs of
                       None \<Rightarrow> Inl NoResponse
                     | Some content \<Rightarrow>
                         if content = [] then Inl NoResponse
                         else (case JSON_parse content of
                                 None \<Rightarrow> Inl ContentNotJson
                               | Some parsed \<Rightarrow> Inr parsed))))"

definition extractTransactionsFromImage ::
  "(string \<Rightarrow> 'n parsed option) \<Rightarrow> (request \<Rightarrow> fetch_result) \<Rightarrow>
   string option \<Rightarrow> string \<Rightarrow> (service_error + 'n parsed) io" where
  "extractTransactionsFromImage JSON_parse fetch OPENAI_API_KEY imageData =
     (if falsy OPENAI_API_KEY
      then \<lparr>sent = [], logged = [], returned = Inl ApiKeyNotConfigured\<rparr>
      else
        let req = extraction_request OPENAI_API_KEY imageData;
            r = extraction_try JSON_parse (fetch req)
        in \<lparr>sent = [req],
            logged = (case r of Inl error \<Rightarrow> [''Error extracting transactions:''] | Inr _ \<Rightarrow> []),
            returned = r\<rparr>)"

subsection \<open>\<^verbatim>\<open>chatAboutReceipt\<close>\<close>

definition chat_system_prompt :: string where
  "chat_system_prompt = join newline
    [''You are a helpful financial assistant specializing in explaining bills, receipts, and transactions to students. '',
     ''        You can help with:'',
     ''        - Explaining charges and fees'',
     ''        - Verifying if prices are reasonable'',
     ''        - Breaking down complex bills'',
     ''        - Suggesting better spending categories'',
     ''        - Identifying potential errors or fraud'',
     ''        '',
     ''        Be friendly, educational, and focus on helping students understand their finances better.'']"

text \<open>The callback of \<^verbatim>\<open>transactions.slice(-50).map(...)\<close>: one line per transaction.\<close>

definition summary_line :: "'n numerics \<Rightarrow> 'n Transaction \<Rightarrow> string" where
  "summary_line N t =
     tx_date t @ '': '' @ (if tx_type t = Income then ''+'' else ''-'') @ ''$'' @
     toString N (tx_amount t) @ '' - '' @ tx_description t @ '' ('' @ tx_category t @ '')''"

definition transactionSummary :: "'n numerics \<Rightarrow> 'n Transaction list \<Rightarrow> string" where
  "transactionSummary N ts = join newline (map (summary_line N) (slice_neg 50 ts))"

definition history_message :: "'n numerics \<Rightarrow> 'n Transaction list \<Rightarrow> message" where
  "history_message N ts =
     \<lparr>msg_role = System,
      msg_content = Text
        (''Here is the user's recent transaction history for context:'' @ newline @
         transactionSummary N ts @ newline @ newline @
         ''Use this information to provide personalized insights and answer questions about their spending patterns, budgets, and financial habits.'')\<rparr>"

definition chat_messages ::
  "'n numerics \<Rightarrow> string \<Rightarrow> string option \<Rightarrow> string option \<Rightarrow>
   'n Transaction list option \<Rightarrow> message list" where
  "chat_messages N msg imageData context txs =
     [\<lparr>msg_role = System, msg_content = Text chat_system_prompt\<rparr>] @
     (case txs of
        None \<Rightarrow> []
      | Some ts \<Rightarrow> if length ts > 0 then [history_message N ts] else []) @
     (if falsy context then []
      else [\<lparr>msg_role = System,
             msg_content = Text (''Context about the current receipt/bill: '' @ template context)\<rparr>]) @
     [\<lparr>msg_role = User,
       msg_content =
         (if falsy imageData then Text msg
          else Parts [TextPart msg, ImageUrlPart (template imageData)])\<rparr>]"

definition chat_request ::
  "'n numerics \<Rightarrow> string option \<Rightarrow> string \<Rightarrow> string option \<Rightarrow> string option \<Rightarrow>
   'n Transaction list option \<Rightarrow> request" where
  "chat_request N OPENAI_API_KEY msg imageData context txs =
     \<lparr>bearer = template OPENAI_API_KEY,
      model = (if falsy imageData then ''gpt-4-turbo'' else ''gpt-4-turbo''),
      messages = chat_messages N msg imageData context txs,
      max_tokens = 500,
      temperature = ''0.7''\<rparr>"

text \<open>
  The rest of the \<^verbatim>\<open>try\<close> block, with the lines it writes to the console before
  the \<^verbatim>\<open>catch\<close> adds its own.
\<close>

definition chat_try :: "fetch_result \<Rightarrow> string list \<times> (service_error + ChatResponse)" where
  "chat_try response =
     (case response of
        Rejected \<Rightarrow> ([], Inl FetchRejected)
      | Response ok st txt js \<Rightarrow>
          if \<not> ok then ([''OpenAI API Error:''], Inl (ApiError st))
          else (case js of
                  NotJson \<Rightarrow> ([], Inl ResponseNotJson)
                | NoChoices \<Rightarrow> ([], Inl ChoicesUndefined)
                | Data cs \<Rightarrow>
                    (case first_content cs of
                       None \<Rightarrow> ([], Inl NoResponse)
                     | Some content \<Rightarrow>
                         if content = [] then ([], Inl NoResponse)
                         else ([], Inr \<lparr>cr_message = content, suggestions = Some []\<rparr>))))"

definition chatAboutReceipt ::
  "'n numerics \<Rightarrow> (request \<Rightarrow> fetch_result) \<Rightarrow> string option \<Rightarrow> string \<Rightarrow> string option \<Rightarrow>
   string option \<Rightarrow> 'n Transaction list option \<Rightarrow> (service_error + ChatResponse) io" where
  "chatAboutReceipt N fetch OPENAI_API_KEY msg imageData context txs =
     (if falsy OPENAI_API_KEY
      then \<lparr>sent = [], logged = [], returned = Inl ApiKeyNotConfigured\<rparr>
      else
        let req = chat_request N OPENAI_API_KEY msg imageData context txs;
            tried = chat_try (fetch req)
        in \<lparr>sent = [req],
            logged = fst tried @ (case snd tried of Inl error \<Rightarrow> [''Error in chat:''] | Inr _ \<Rightarrow> []),
            returned = snd tried\<rparr>)"

subsection \<open>\<^verbatim>\<open>generateFinancialInsights\<close>\<close>

definition insights_system_prompt :: string where
  "insights_system_prompt = join newline
    [''You are a financial advisor for students. Analyze the transaction data and provide 3-5 actionable insights.'',
     ''            Focus on spending patterns, budgeting tips, and financial health for students.'',
     ''            Return insights as a JSON array of strings.'']"

definition insights_request ::
  "('n Transaction list \<Rightarrow> string) \<Rightarrow> string option \<Rightarrow> 'n Transaction list \<Rightarrow> request" where
  "insights_request JSON_stringify OPENAI_API_KEY ts =
     \<lparr>bearer = template OPENAI_API_KEY,
      model = ''gpt-4-turbo'',
      messages =
        [\<lparr>msg_role = System, msg_content = Text insights_system_prompt\<rparr>,
         \<lparr>msg_role = User,
          msg_content = Text (''Analyze these transactions and provide insights: '' @
                              JSON_stringify (slice_neg 20 ts))\<rparr>],
      max_tokens = 400,
      temperature = ''0.3''\<rparr>"

text \<open>
  The \<^verbatim>\<open>try\<close> block: \<open>Inl\<close> is a throw, which the \<^verbatim>\<open>catch\<close> of
  \<open>generateFinancialInsights\<close> turns into the empty list. The result is declared
  \<^verbatim>\<open>string[]\<close>; what is returned is the parsed array as it is, so its elements are JSON
  values.
\<close>

definition insights_try ::
  "(string \<Rightarrow> 'n json option) \<Rightarrow> fetch_result \<Rightarrow> service_error + 'n json list" where
  "insights_try JSON_parse response =
     (case response of
        Rejected \<Rightarrow> Inl FetchRejected
      | Response ok st txt js \<Rightarrow>
          if \<not> ok then Inl (ApiError st)
          else (case js of
                  NotJson \<Rightarrow> Inl ResponseNotJson
                | NoChoices \<Rightarrow> Inl ChoicesUndefined
                | Data cs \<Rightarrow>
                    (case first_content cs of
                       None \<Rightarrow> Inr []
                     | Some content \<Rightarrow>
                         if content = [] then Inr []
                         else (case JSON_parse content of
                                 None \<Rightarrow> Inl ContentNotJson
                               | Some insights \<Rightarrow>
                                   (case insights of JArr xs \<Rightarrow> Inr xs | _ \<Rightarrow> Inr [])))))"

definition generateFinancialInsights ::
  "('n Transaction list \<Rightarrow> string) \<Rightarrow> (string \<Rightarrow> 'n json option) \<Rightarrow>
   (request \<Rightarrow> fetch_result) \<Rightarrow> string option \<Rightarrow> 'n Transaction list \<Rightarrow> 'n json list io" where
  "generateFinancialInsights JSON_stringify JSON_parse fetch OPENAI_API_KEY ts =
     (if falsy OPENAI_API_KEY \<or> length ts = 0
      then \<lparr>sent = [], logged = [], returned = []\<rparr>
      else
        let req = insights_request JSON_stringify OPENAI_API_KEY ts
        in (case insights_try JSON_parse (fetch req) of
              Inl error \<Rightarrow> \<lparr>sent = [req], logged = [''Error generating insights:''], returned = []\<rparr>
            | Inr insights \<Rightarrow> \<lparr>sent = [req], logged = [], returned = insights\<rparr>))"

subsection \<open>The state of \<^verbatim>\<open>BillsReceiptsManager\<close> and of \<^verbatim>\<open>App\<close>\<close>

datatype file_status = Processing | Completed | Error

datatype file_kind = Image_file | Pdf_file

text \<open>The browser's \<^verbatim>\<open>File\<close>: its name and its MIME type (\<^verbatim>\<open>file.type\<close>).\<close>

record File =
  file_name :: string
  file_type :: string

record 'n UploadedFile =
  uf_id :: string
  uf_file :: File
  preview :: string
  uf_type :: file_kind
  uploadedAt :: string
  status :: file_status
  extractedTransactions :: "'n Transaction list"
  aiAnalysis :: "string option"

datatype sender = FromUser | FromAi

record ChatMessage =
  cm_id :: string
  cm_type :: sender
  cm_message :: string
  timestamp :: string
  fileId :: "string option"

datatype tab = Upload | Chat | History

text \<open>
  The six \<^verbatim>\<open>useState\<close> cells of the component. \<open>console\<close> is not React state: it
  collects the lines the component's functions write with \<^verbatim>\<open>console.error\<close>.
\<close>

record 'n manager =
  uploadedFiles :: "'n UploadedFile list"
  selectedFile :: "'n UploadedFile option"
  chatMessages :: "ChatMessage list"
  currentMessage :: string
  isProcessing :: bool
  activeTab :: tab
  console :: "string list"

definition initial_manager :: "'n manager" where
  "initial_manager =
     \<lparr>uploadedFiles = [], selectedFile = None, chatMessages = [], currentMessage = [],
      isProcessing = False, activeTab = Upload, console = []\<rparr>"

record 'n app =
  hasCompletedSetup :: bool
  app_transactions :: "'n Transaction list"
  isTransactionModalOpen :: bool

text \<open>
  What one run of a handler reads from the platform: \<open>now k\<close> is the \<open>k\<close>-th reading of
  \<^verbatim>\<open>Date.now()\<close>, \<open>toISOString k\<close> the \<open>k\<close>-th \<^verbatim>\<open>new Date().toISOString()\<close>,
  \<open>reader_result\<close> the data URL of the \<^verbatim>\<open>FileReader\<close>, \<open>random_suffix\<close> the value of
  \<^verbatim>\<open>Math.random().toString(36).substr(2, 9)\<close> and \<open>random_index\<close> that of
  \<^verbatim>\<open>Math.floor(Math.random() * aiResponses.length)\<close>. \<open>trim\<close> is the platform's
  \<^verbatim>\<open>String.prototype.trim\<close>: which characters it takes for white space is left to it.
\<close>

record env =
  now :: "nat \<Rightarrow> nat"
  toISOString :: "nat \<Rightarrow> string"
  reader_result :: string
  random_suffix :: string
  random_index :: nat
  trim :: "string \<Rightarrow> string"

text \<open>\<^verbatim>\<open>s.split('T')[0]\<close>.\<close>

definition split_T_0 :: "string \<Rightarrow> string" where
  "split_T_0 s = takeWhile (\<lambda>c. c \<noteq> CHR ''T'') s"

text \<open>\<^verbatim>\<open>s.startsWith(p)\<close>.\<close>

definition startsWith :: "string \<Rightarrow> string \<Rightarrow> bool" where
  "startsWith s p = (take (length p) s = p)"

subsection \<open>\<^verbatim>\<open>onDrop\<close>\<close>

text \<open>The \<^verbatim>\<open>reader.onload\<close> callback for one accepted file.\<close>

definition newFile :: "env \<Rightarrow> File \<Rightarrow> 'n UploadedFile" where
  "newFile e file =
     \<lparr>uf_id = show_nat (now e 0) @ random_suffix e,
      uf_file = file,
      preview = reader_result e,
      uf_type = (if startsWith (file_type file) ''image/'' then Image_file else Pdf_file),
      uploadedAt = toISOString e 0,
      status = Processing,
      extractedTransactions = [],
      aiAnalysis = None\<rparr>"

text \<open>
  \<^verbatim>\<open>processFile\<close> up to its \<^verbatim>\<open>await\<close>; the call
  \<^verbatim>\<open>extractTransactionsFromImage(file.preview)\<close> is then in flight.
\<close>

definition processFile_begin :: "'n manager \<Rightarrow> 'n manager" where
  "processFile_begin s = s\<lparr>isProcessing := True\<rparr>"

definition onDrop_onload :: "env \<Rightarrow> File \<Rightarrow> 'n manager \<Rightarrow> 'n manager" where
  "onDrop_onload e file s =
     processFile_begin (s\<lparr>uploadedFiles := uploadedFiles s @ [newFile e file]\<rparr>)"

subsection \<open>\<^verbatim>\<open>processFile\<close> after the extraction call has settled\<close>

definition rejection_analysis :: "string option \<Rightarrow> string" where
  "rejection_analysis reason =
     ''Document rejected: '' @
     (if falsy reason
      then ''This does not appear to be a valid receipt, bill, or financial document.''
      else template reason)"

definition to_transactions :: "env \<Rightarrow> 'n RawTransaction list \<Rightarrow> 'n Transaction list" where
  "to_transactions e raws =
     map (\<lambda>(index, t).
            \<lparr>tx_id = show_nat (now e index) @ show_nat index,
             tx_date = rt_date t,
             tx_amount = rt_amount t,
             tx_category = rt_category t,
             tx_description = rt_description t,
             tx_type = rt_type t\<rparr>)
         (enumerate 0 raws)"

definition mockTransactions :: "'n numerics \<Rightarrow> env \<Rightarrow> 'n Transaction list" where
  "mockTransactions N e =
     [\<lparr>tx_id = show_nat (now e 0),
       tx_date = split_T_0 (toISOString e 0),
       tx_amount = lit N ''25.99'',
       tx_category = ''food'',
       tx_description = ''Grocery items from receipt'',
       tx_type = Expense\<rparr>,
      \<lparr>tx_id = show_nat (now e 1 + 1),
       tx_date = split_T_0 (toISOString e 1),
       tx_amount = lit N ''3.50'',
       tx_category = ''food'',
       tx_description = ''Beverage from receipt'',
       tx_type = Expense\<rparr>]"

definition mockAnalysis :: "'n numerics \<Rightarrow> 'n UploadedFile \<Rightarrow> 'n Transaction list \<Rightarrow> string" where
  "mockAnalysis N file txs =
     ''I've analyzed your '' @ (if uf_type file = Image_file then ''receipt'' else ''bill'') @
     '' and found '' @ show_nat (length txs) @ '' transactions. The total amount is $'' @
     toFixed N (foldl (\<lambda>sum t. add N sum (tx_amount t)) (lit N ''0'') txs) 2 @
     ''. This appears to be a valid financial document with multiple line items extracted as separate transactions.''"

text \<open>
  \<^verbatim>\<open>result.transactions.map(...)\<close> goes through the elements of an array; it throws a
  \<^verbatim>\<open>TypeError\<close> at an element that is \<^verbatim>\<open>null\<close>, when the callback reads
  \<^verbatim>\<open>t.date\<close>. \<open>objects\<close> gives the elements when none is \<^verbatim>\<open>null\<close>.
\<close>

fun objects :: "'a option list \<Rightarrow> 'a list option" where
  "objects [] = Some []"
| "objects (None # xs) = None"
| "objects (Some x # xs) = map_option (\<lambda>ys. x # ys) (objects xs)"

text \<open>
  The callback evaluates \<^verbatim>\<open>id: Date.now().toString() + index\<close> before \<^verbatim>\<open>date: t.date\<close>,
  so the clock has been read once for every element up to the first \<^verbatim>\<open>null\<close>, that one
  included, when the callback throws. \<open>later k e\<close> is the platform after \<open>k\<close> readings of
  the clock.
\<close>

definition readings :: "'a option list \<Rightarrow> nat" where
  "readings elements = Suc (length (takeWhile (\<lambda>t. t \<noteq> None) elements))"

definition later :: "nat \<Rightarrow> env \<Rightarrow> env" where
  "later k e = e\<lparr>now := \<lambda>i. now e (k + i)\<rparr>"

text \<open>
  The \<^verbatim>\<open>catch\<close> block of \<open>processFile\<close> with the \<^verbatim>\<open>finally\<close> block after it: the
  fallback to mock data. \<open>file\<close> is the argument of \<^verbatim>\<open>processFile\<close>, the record built
  by \<open>newFile\<close>; \<open>r\<close> is what the awaited call did; \<open>e\<close> is the platform as the
  \<^verbatim>\<open>catch\<close> block finds it.
\<close>

definition processFile_catch ::
  "'n numerics \<Rightarrow> env \<Rightarrow> 'n UploadedFile \<Rightarrow> (service_error + 'n parsed) io \<Rightarrow>
   'n manager \<Rightarrow> 'n manager" where
  "processFile_catch N e file r s =
     s\<lparr>uploadedFiles :=
         map (\<lambda>f. if uf_id f = uf_id file
                  then f\<lparr>status := Completed,
                         extractedTransactions := mockTransactions N e,
                         aiAnalysis := Some (mockAnalysis N file (mockTransactions N e))\<rparr>
                  else f)
             (uploadedFiles s),
       console := console s @ logged r @ [''AI processing failed:''],
       isProcessing := False\<rparr>"

text \<open>
  \<open>processFile\<close> from its \<^verbatim>\<open>await\<close> on: the \<^verbatim>\<open>try\<close> block with its two
  \<^verbatim>\<open>setUploadedFiles(prev => prev.map(...))\<close> updates, each followed by the
  \<^verbatim>\<open>finally\<close> block, and the \<^verbatim>\<open>catch\<close> block wherever the \<^verbatim>\<open>try\<close> block throws:
  \<^item> the awaited call throws;
  \<^item> \<^verbatim>\<open>result.isValidDocument\<close> is read from \<^verbatim>\<open>null\<close>;
  \<^item> \<^verbatim>\<open>result.transactions\<close> is no array, so that there is no \<^verbatim>\<open>.map\<close> to call;
  \<^item> an element of \<^verbatim>\<open>result.transactions\<close> is \<^verbatim>\<open>null\<close>.
\<close>

definition processFile_resume ::
  "'n numerics \<Rightarrow> env \<Rightarrow> 'n UploadedFile \<Rightarrow> (service_error + 'n parsed) io \<Rightarrow>
   'n manager \<Rightarrow> 'n manager" where
  "processFile_resume N e file r s =
     (case returned r of
        Inr Null_payload \<Rightarrow> processFile_catch N e file r s
      | Inr (Payload result) \<Rightarrow>
          if \<not> isValidDocument result
          then s\<lparr>uploadedFiles :=
                   map (\<lambda>f. if uf_id f = uf_id file
                            then f\<lparr>status := Error,
                                   aiAnalysis := Some (rejection_analysis (rejectionReason result))\<rparr>
                            else f)
                       (uploadedFiles s),
                 console := console s @ logged r,
                 isProcessing := False\<rparr>
          else (case transactions result of
                  None \<Rightarrow> processFile_catch N e file r s
                | Some elements \<Rightarrow>
                    (case objects elements of
                       None \<Rightarrow> processFile_catch N (later (readings elements) e) file r s
                     | Some raws \<Rightarrow>
                         s\<lparr>uploadedFiles :=
                             map (\<lambda>f. if uf_id f = uf_id file
                                      then f\<lparr>status := Completed,
                                             extractedTransactions := to_transactions e raws,
                                             aiAnalysis := analysis result\<rparr>
                                      else f)
                                 (uploadedFiles s),
                           console := console s @ logged r,
                           isProcessing := False\<rparr>))
      | Inl error \<Rightarrow> processFile_catch N e file r s)"

text \<open>\<^verbatim>\<open>processFile\<close> when nothing else happens between the call and its result.\<close>

definition processFile ::
  "'n numerics \<Rightarrow> env \<Rightarrow> (string \<Rightarrow> 'n parsed option) \<Rightarrow>
   (request \<Rightarrow> fetch_result) \<Rightarrow> string option \<Rightarrow> 'n UploadedFile \<Rightarrow> 'n manager \<Rightarrow> 'n manager" where
  "processFile N e JSON_parse fetch OPENAI_API_KEY file s =
     processFile_resume N e file
       (extractTransactionsFromImage JSON_parse fetch OPENAI_API_KEY (preview file))
       (processFile_begin s)"

subsection \<open>\<^verbatim>\<open>sendMessage\<close>\<close>

text \<open>\<^verbatim>\<open>!currentMessage.trim()\<close>: the trimmed message is the empty string.\<close>

definition blank :: "env \<Rightarrow> string \<Rightarrow> bool" where
  "blank e s = (trim e s = [])"

definition sendMessage_begin :: "env \<Rightarrow> 'n manager \<Rightarrow> 'n manager" where
  "sendMessage_begin e s =
     (if blank e (currentMessage s) then s
      else s\<lparr>chatMessages := chatMessages s @
                [\<lparr>cm_id = show_nat (now e 0),
                  cm_type = FromUser,
                  cm_message = currentMessage s,
                  timestamp = toISOString e 0,
                  fileId = map_option uf_id (selectedFile s)\<rparr>],
             currentMessage := []\<rparr>)"

text \<open>
  The call \<open>sendMessage\<close> awaits; \<open>sel\<close>, \<open>messageToSend\<close> and \<open>ledger\<close> are the
  \<^verbatim>\<open>selectedFile\<close>, the message and the \<^verbatim>\<open>transactions\<close> prop the handler closed over.
\<close>

definition sendMessage_call ::
  "'n numerics \<Rightarrow> (request \<Rightarrow> fetch_result) \<Rightarrow> string option \<Rightarrow> string \<Rightarrow>
   'n UploadedFile option \<Rightarrow> 'n Transaction list \<Rightarrow> (service_error + ChatResponse) io" where
  "sendMessage_call N fetch OPENAI_API_KEY messageToSend sel ledger =
     chatAboutReceipt N fetch OPENAI_API_KEY messageToSend
       (map_option preview sel)
       (case sel of None \<Rightarrow> None | Some f \<Rightarrow> aiAnalysis f)
       (Some ledger)"

definition aiResponses :: "string list" where
  "aiResponses =
     [''Based on your receipt, this appears to be a legitimate purchase. The pricing is consistent with current market rates for these items.'',
      ''I can see this is a grocery receipt. The total seems reasonable for the items listed. Would you like me to break down the categories?'',
      ''This bill shows your monthly utilities. The charges appear normal compared to seasonal averages. The breakdown includes base rate, usage, and taxes.'',
      ''Looking at this receipt, I notice a few items that might be categorized differently. Would you like me to suggest better categories for budgeting?'',
      ''The transaction amounts on this receipt are all within normal ranges. I can help you set up automatic categorization for similar purchases.'']"

definition sendMessage_resume ::
  "env \<Rightarrow> 'n UploadedFile option \<Rightarrow> (service_error + ChatResponse) io \<Rightarrow> 'n manager \<Rightarrow> 'n manager" where
  "sendMessage_resume e sel r s =
     (case returned r of
        Inr response \<Rightarrow>
          s\<lparr>chatMessages := chatMessages s @
              [\<lparr>cm_id = show_nat (now e 0 + 1),
                cm_type = FromAi,
                cm_message = cr_message response,
                timestamp = toISOString e 0,
                fileId = map_option uf_id sel\<rparr>],
            console := console s @ logged r\<rparr>
      | Inl error \<Rightarrow>
          s\<lparr>chatMessages := chatMessages s @
              [\<lparr>cm_id = show_nat (now e 0 + 1),
                cm_type = FromAi,
                cm_message = aiResponses ! (random_index e mod length aiResponses),
                timestamp = toISOString e 0,
                fileId = map_option uf_id sel\<rparr>],
            console := console s @ logged r @ [''Chat error:'']\<rparr>)"

subsection \<open>\<^verbatim>\<open>deleteFile\<close>, \<^verbatim>\<open>addTransactionsToTracker\<close>, \<^verbatim>\<open>handleAddTransactions\<close>\<close>

definition deleteFile :: "string \<Rightarrow> 'n manager \<Rightarrow> 'n manager" where
  "deleteFile fileId_arg s =
     (let s' = s\<lparr>uploadedFiles := filter (\<lambda>f. uf_id f \<noteq> fileId_arg) (uploadedFiles s)\<rparr>
      in if map_option uf_id (selectedFile s) = Some fileId_arg
         then s'\<lparr>selectedFile := None\<rparr>
         else s')"

text \<open>
  \<open>handleAddTransactions\<close> of \<^verbatim>\<open>App\<close>:
  \<^verbatim>\<open>setTransactions(prev => [...prev, ...newTransactions])\<close>.
\<close>

definition handleAddTransactions :: "'n Transaction list \<Rightarrow> 'n app \<Rightarrow> 'n app" where
  "handleAddTransactions newTransactions a =
     a\<lparr>app_transactions := app_transactions a @ newTransactions\<rparr>"

text \<open>
  \<open>handleAddTransaction\<close> of \<^verbatim>\<open>App\<close>, the manual entry: the transaction of the form
  gets the id \<^verbatim>\<open>Date.now().toString()\<close> and is appended.
\<close>

definition handleAddTransaction :: "env \<Rightarrow> 'n Transaction \<Rightarrow> 'n app \<Rightarrow> 'n app" where
  "handleAddTransaction e transaction a =
     a\<lparr>app_transactions := app_transactions a @ [transaction\<lparr>tx_id := show_nat (now e 0)\<rparr>]\<rparr>"

text \<open>
  \<open>addTransactionsToTracker\<close> hands its argument to the \<^verbatim>\<open>onAddTransactions\<close> prop,
  which \<^verbatim>\<open>StudentDashboard\<close> passes through from \<^verbatim>\<open>App\<close>.
\<close>

definition addTransactionsToTracker ::
  "('n Transaction list \<Rightarrow> 'n app \<Rightarrow> 'n app) \<Rightarrow> 'n Transaction list \<Rightarrow> 'n app \<Rightarrow> 'n app" where
  "addTransactionsToTracker onAddTransactions txs a = onAddTransactions txs a"

subsection \<open>The component over time\<close>

text \<open>
  Several \<^verbatim>\<open>processFile\<close> and \<^verbatim>\<open>sendMessage\<close> calls can be waiting for the network
  while the user goes on clicking. A \<open>world\<close> holds the two React states, the calls in
  flight with the values they closed over, and the ids \<open>onDrop\<close> has given out.
\<close>

record 'n world =
  the_app :: "'n app"
  the_manager :: "'n manager"
  extracting :: "'n UploadedFile list"
  chatting :: "'n UploadedFile option list"
  issued :: "string list"

definition initial_world :: "'n Transaction list \<Rightarrow> 'n world" where
  "initial_world ledger =
     \<lparr>the_app = \<lparr>hasCompletedSetup = True, app_transactions = ledger,
                 isTransactionModalOpen = False\<rparr>,
      the_manager = initial_manager,
      extracting = [],
      chatting = [],
      issued = []\<rparr>"

datatype 'n event =
  FileRead env File
    \<comment> \<open>\<^verbatim>\<open>reader.onload\<close> fires for an accepted file\<close>
| ExtractionSettled "'n UploadedFile" "(service_error + 'n parsed) io" env
    \<comment> \<open>the call awaited by \<^verbatim>\<open>processFile(file)\<close> returns or throws\<close>
| DeleteClicked string
| FileSelected "'n UploadedFile option"
| TabClicked tab
| Typed string
| SendClicked env
| ChatSettled "'n UploadedFile option" "(service_error + ChatResponse) io" env
| AddToTrackerClicked "'n UploadedFile"
| TransactionEntered env "'n Transaction"

text \<open>
  One event. \<open>None\<close> means the event cannot happen in that state:
  \<^item> an id is \<^verbatim>\<open>Date.now()\<close> followed by nine random characters, and the model
    takes it that \<open>onDrop\<close> never produces the same id twice;
  \<^item> a call settles only if it is in flight;
  \<^item> the two \<^verbatim>\<open>Add to Tracker\<close> buttons are rendered only for a listed file with
    \<^verbatim>\<open>extractedTransactions.length > 0\<close>.
\<close>

fun fire :: "'n numerics \<Rightarrow> 'n event \<Rightarrow> 'n world \<Rightarrow> 'n world option" where
  "fire N (FileRead e file) w =
     (if uf_id (newFile e file :: 'n UploadedFile) \<in> set (issued w) then None
      else Some (w\<lparr>the_manager := onDrop_onload e file (the_manager w),
                   extracting := extracting w @ [newFile e file],
                   issued := issued w @ [uf_id (newFile e file :: 'n UploadedFile)]\<rparr>))"
| "fire N (ExtractionSettled file r e) w =
     (if file \<in> set (extracting w)
      then Some (w\<lparr>the_manager := processFile_resume N e file r (the_manager w),
                   extracting := remove1 file (extracting w)\<rparr>)
      else None)"
| "fire N (DeleteClicked fileId_arg) w =
     Some (w\<lparr>the_manager := deleteFile fileId_arg (the_manager w)\<rparr>)"
| "fire N (FileSelected sel) w =
     Some (w\<lparr>the_manager := (the_manager w)\<lparr>selectedFile := sel\<rparr>\<rparr>)"
| "fire N (TabClicked t) w =
     Some (w\<lparr>the_manager := (the_manager w)\<lparr>activeTab := t\<rparr>\<rparr>)"
| "fire N (Typed text) w =
     Some (w\<lparr>the_manager := (the_manager w)\<lparr>currentMessage := text\<rparr>\<rparr>)"
| "fire N (SendClicked e) w =
     (if blank e (currentMessage (the_manager w)) then Some w
      else Some (w\<lparr>the_manager := sendMessage_begin e (the_manager w),
                   chatting := chatting w @ [selectedFile (the_manager w)]\<rparr>))"
| "fire N (ChatSettled sel r e) w =
     (if sel \<in> set (chatting w)
      then Some (w\<lparr>the_manager := sendMessage_resume e sel r (the_manager w),
                   chatting := remove1 sel (chatting w)\<rparr>)
      else None)"
| "fire N (AddToTrackerClicked f) w =
     (if f \<in> set (uploadedFiles (the_manager w)) \<and> length (extractedTransactions f) > 0
      then Some (w\<lparr>the_app := addTransactionsToTracker handleAddTransactions
                                (extractedTransactions f) (the_app w)\<rparr>)
      else None)"
| "fire N (TransactionEntered e transaction) w =
     Some (w\<lparr>the_app := handleAddTransaction e transaction (the_app w)\<rparr>)"

fun run :: "'n numerics \<Rightarrow> 'n event list \<Rightarrow> 'n world \<Rightarrow> 'n world option" where
  "run N [] w = Some w"
| "run N (ev # evs) w = (case fire N ev w of None \<Rightarrow> None | Some w' \<Rightarrow> run N evs w')"

subsection \<open>The vocabulary of the specification\<close>

text \<open>
  The error kinds of the specification (its sections 4.1 and 7) as a classification of the
  errors of the source: no credential; the network call does not complete or returns a
  non-success status; the payload cannot be decoded.
\<close>

datatype spec_error_kind = ServiceUnavailable | TransportError | MalformedResponse

fun error_kind :: "service_error \<Rightarrow> spec_error_kind" where
  "error_kind ApiKeyNotConfigured = ServiceUnavailable"
| "error_kind FetchRejected = TransportError"
| "error_kind (ApiError st) = TransportError"
| "error_kind ResponseNotJson = MalformedResponse"
| "error_kind ChoicesUndefined = MalformedResponse"
| "error_kind NoResponse = MalformedResponse"
| "error_kind ContentNotJson = MalformedResponse"

text \<open>The specification's "a JSON array of strings".\<close>

fun is_string_array :: "'n json \<Rightarrow> bool" where
  "is_string_array (JArr xs) = list_all (\<lambda>x. case x of JStr s \<Rightarrow> True | _ \<Rightarrow> False) xs"
| "is_string_array _ = False"

subsection \<open>What \<open>processFile\<close> writes into an entry\<close>

text \<open>
  For the proofs: the entry the \<^verbatim>\<open>catch\<close> block writes, and the entry that
  \<open>processFile_resume\<close> puts in the place of a listed entry with the file's id.
\<close>

definition mock_entry :: "'n numerics \<Rightarrow> env \<Rightarrow> 'n UploadedFile \<Rightarrow> 'n UploadedFile \<Rightarrow> 'n UploadedFile" where
  "mock_entry N e file f =
     f\<lparr>status := Completed,
       extractedTransactions := mockTransactions N e,
       aiAnalysis := Some (mockAnalysis N file (mockTransactions N e))\<rparr>"

definition entry_after ::
  "'n numerics \<Rightarrow> env \<Rightarrow> 'n UploadedFile \<Rightarrow> (service_error + 'n parsed) io \<Rightarrow>
   'n UploadedFile \<Rightarrow> 'n UploadedFile" where
  "entry_after N e file r f =
     (case returned r of
        Inr Null_payload \<Rightarrow> mock_entry N e file f
      | Inr (Payload result) \<Rightarrow>
          if \<not> isValidDocument result
          then f\<lparr>status := Error,
                 aiAnalysis := Some (rejection_analysis (rejectionReason result))\<rparr>
          else (case transactions result of
                  None \<Rightarrow> mock_entry N e file f
                | Some elements \<Rightarrow>
                    (case objects elements of
                       None \<Rightarrow> mock_entry N (later (readings elements) e) file f
                     | Some raws \<Rightarrow>
                         f\<lparr>status := Completed,
                           extractedTransactions := to_transactions e raws,
                           aiAnalysis := analysis result\<rparr>))
      | Inl error \<Rightarrow> mock_entry N e file f)"

text \<open>
  For the proofs: the \<^verbatim>\<open>try\<close> block of \<open>processFile\<close> throws, and the platform as its
  \<^verbatim>\<open>catch\<close> block finds it.
\<close>

definition caught_env :: "env \<Rightarrow> (service_error + 'n parsed) io \<Rightarrow> env" where
  "caught_env e r =
     (case returned r of
        Inr (Payload result) \<Rightarrow>
          (case transactions result of
             Some elements \<Rightarrow> later (readings elements) e
           | None \<Rightarrow> e)
      | _ \<Rightarrow> e)"

definition try_throws :: "(service_error + 'n parsed) io \<Rightarrow> bool" where
  "try_throws r =
     (case returned r of
        Inl error \<Rightarrow> True
      | Inr Null_payload \<Rightarrow> True
      | Inr (Payload result) \<Rightarrow>
          isValidDocument result \<and>
          (case transactions result of None \<Rightarrow> True | Some elements \<Rightarrow> None \<in> set elements))"

subsection \<open>What holds in every state the component can reach\<close>

text \<open>
  Ids are distinct in the list and among the calls in flight, and all of them were given
  out by \<open>onDrop\<close>; a file whose extraction is in flight is still as \<open>newFile\<close> built it;
  a listed file is in status \<open>Processing\<close> exactly while its extraction is in flight.
\<close>

definition files :: "'n world \<Rightarrow> 'n UploadedFile list" where
  "files w = uploadedFiles (the_manager w)"

definition waiting :: "'n world \<Rightarrow> string \<Rightarrow> bool" where
  "waiting w i = (\<exists>t \<in> set (extracting w). uf_id t = i)"

definition consistent :: "'n world \<Rightarrow> bool" where
  "consistent w \<longleftrightarrow>
     distinct (map uf_id (files w)) \<and>
     distinct (map uf_id (extracting w)) \<and>
     (\<forall>f \<in> set (files w). uf_id f \<in> set (issued w)) \<and>
     (\<forall>t \<in> set (extracting w). uf_id t \<in> set (issued w)) \<and>
     (\<forall>t \<in> set (extracting w). status t = Processing \<and> extractedTransactions t = []) \<and>
     (\<forall>f \<in> set (files w). waiting w (uf_id f) \<longrightarrow> f \<in> set (extracting w)) \<and>
     (\<forall>f \<in> set (files w). \<not> waiting w (uf_id f) \<longrightarrow> status f \<noteq> Processing)"

subsection \<open>Sample values\<close>

text \<open>
  Platform values for the concrete runs below. In these runs a number is represented by its
  literal, so that \<open>'n\<close> is \<open>string\<close>.
\<close>

definition sample_numerics :: "string numerics" where
  "sample_numerics =
     \<lparr>lit = (\<lambda>s. s), add = (\<lambda>a b. a @ ''+'' @ b), toFixed = (\<lambda>x d. x), toString = (\<lambda>x. x)\<rparr>"

text \<open>A \<^verbatim>\<open>trim\<close> for the samples: it removes the ASCII white space at both ends.\<close>

definition sample_space :: "char \<Rightarrow> bool" where
  "sample_space c = (c \<in> set [CHR 0x20, CHR 0x09, CHR 0x0A, CHR 0x0B, CHR 0x0C, CHR 0x0D])"

definition sample_trim :: "string \<Rightarrow> string" where
  "sample_trim s = rev (dropWhile sample_space (rev (dropWhile sample_space s)))"

definition sample_env :: "nat \<Rightarrow> env" where
  "sample_env t =
     \<lparr>now = (\<lambda>k. t + k), toISOString = (\<lambda>k. ''2024-05-01T10:00:00.000Z''),
      reader_result = ''data:image/png;base64,AAAA'', random_suffix = ''k3j9x0q1z'',
      random_index = 0, trim = sample_trim\<rparr>"

definition sample_file :: File where
  "sample_file = \<lparr>file_name = ''photo.png'', file_type = ''image/png''\<rparr>"

definition sample_key :: "string option" where
  "sample_key = Some ''sk-test''"

text \<open>
  An upload, and what the service says about it: a result that rejects the document (and
  still lists a transaction), decoded by \<open>parse_rejection\<close> from the text the service
  answers with; or nothing, the network being down.
\<close>

definition sample_doc :: "string UploadedFile" where
  "sample_doc = newFile (sample_env 1000) sample_file"

definition sample_rejection :: "string TransactionExtraction" where
  "sample_rejection =
     \<lparr>transactions =
        Some [Some \<lparr>rt_date = ''2024-05-01'', rt_amount = ''12.50'', rt_category = ''food'',
                    rt_description = ''Lunch'', rt_type = Expense\<rparr>],
      analysis = Some ''A photo of a cat.'',
      confidence = Some ''0.9'',
      isValidDocument = False,
      documentType = Some Other,
      rejectionReason = Some ''not a financial document''\<rparr>"

definition answers_rejection :: "request \<Rightarrow> fetch_result" where
  "answers_rejection req = Response True 200 [] (Data [Some ''{isValidDocument: false, ...}''])"

definition parse_rejection :: "string \<Rightarrow> string parsed option" where
  "parse_rejection content =
     (if content = ''{isValidDocument: false, ...}'' then Some (Payload sample_rejection)
      else None)"

definition offline :: "request \<Rightarrow> fetch_result" where
  "offline req = Rejected"

definition no_extraction :: "string \<Rightarrow> string parsed option" where
  "no_extraction content = None"

definition rejection_call :: "(service_error + string parsed) io" where
  "rejection_call =
     extractTransactionsFromImage parse_rejection answers_rejection sample_key (preview sample_doc)"

definition failure_call :: "(service_error + string parsed) io" where
  "failure_call =
     extractTransactionsFromImage no_extraction offline sample_key (preview sample_doc)"

text \<open>
  The service answers with a text that decodes to an object whose only field is
  \<^verbatim>\<open>isValidDocument\<close>, set.
\<close>

definition sample_unreadable :: "string TransactionExtraction" where
  "sample_unreadable =
     \<lparr>transactions = None, analysis = None, confidence = None, isValidDocument = True,
      documentType = None, rejectionReason = None\<rparr>"

definition answers_unreadable :: "request \<Rightarrow> fetch_result" where
  "answers_unreadable req = Response True 200 [] (Data [Some ''{isValidDocument: true}''])"

definition parse_unreadable :: "string \<Rightarrow> string parsed option" where
  "parse_unreadable content =
     (if content = ''{isValidDocument: true}'' then Some (Payload sample_unreadable) else None)"

definition unreadable_call :: "(service_error + string parsed) io" where
  "unreadable_call =
     extractTransactionsFromImage parse_unreadable answers_unreadable sample_key
       (preview sample_doc)"

text \<open>The service answers with the text \<^verbatim>\<open>null\<close>.\<close>

definition answers_null :: "request \<Rightarrow> fetch_result" where
  "answers_null req = Response True 200 [] (Data [Some ''null''])"

definition parse_null :: "string \<Rightarrow> string parsed option" where
  "parse_null content = (if content = ''null'' then Some Null_payload else None)"

definition null_call :: "(service_error + string parsed) io" where
  "null_call =
     extractTransactionsFromImage parse_null answers_null sample_key (preview sample_doc)"

text \<open>
  The service answers with a valid document whose second transaction is \<^verbatim>\<open>null\<close>.
\<close>

definition sample_holed :: "string TransactionExtraction" where
  "sample_holed =
     \<lparr>transactions =
        Some [Some \<lparr>rt_date = ''2024-05-01'', rt_amount = ''12.50'', rt_category = ''food'',
                    rt_description = ''Lunch'', rt_type = Expense\<rparr>,
              None],
      analysis = Some ''A receipt.'',
      confidence = Some ''0.9'',
      isValidDocument = True,
      documentType = Some Receipt,
      rejectionReason = None\<rparr>"

definition answers_holed :: "request \<Rightarrow> fetch_result" where
  "answers_holed req =
     Response True 200 [] (Data [Some ''{isValidDocument: true, transactions: [{...}, null], ...}''])"

definition parse_holed :: "string \<Rightarrow> string parsed option" where
  "parse_holed content =
     (if content = ''{isValidDocument: true, transactions: [{...}, null], ...}''
      then Some (Payload sample_holed) else None)"

definition holed_call :: "(service_error + string parsed) io" where
  "holed_call =
     extractTransactionsFromImage parse_holed answers_holed sample_key (preview sample_doc)"

text \<open>
  The states after the upload, after the rejection, after the failed call, and after one
  click on \<^verbatim>\<open>Add to Tracker\<close>; a list of two documents with the first one selected.
\<close>

definition sample_uploaded :: "string world" where
  "sample_uploaded =
     (initial_world [])
       \<lparr>the_manager := onDrop_onload (sample_env 1000) sample_file initial_manager,
        extracting := [sample_doc],
        issued := [uf_id sample_doc]\<rparr>"

definition sample_rejected_doc :: "string UploadedFile" where
  "sample_rejected_doc =
     sample_doc\<lparr>status := Error,
                aiAnalysis := Some ''Document rejected: not a financial document''\<rparr>"

definition sample_rejected :: "string world" where
  "sample_rejected =
     sample_uploaded
       \<lparr>the_manager := processFile_resume sample_numerics (sample_env 2000) sample_doc
                         rejection_call (the_manager sample_uploaded),
        extracting := []\<rparr>"

definition sample_completed_doc :: "string UploadedFile" where
  "sample_completed_doc =
     sample_doc\<lparr>status := Completed,
                extractedTransactions := mockTransactions sample_numerics (sample_env 2000),
                aiAnalysis := Some (mockAnalysis sample_numerics sample_doc
                                      (mockTransactions sample_numerics (sample_env 2000)))\<rparr>"

definition sample_completed :: "string world" where
  "sample_completed =
     sample_uploaded
       \<lparr>the_manager := processFile_resume sample_numerics (sample_env 2000) sample_doc
                         failure_call (the_manager sample_uploaded),
        extracting := []\<rparr>"

definition sample_merged :: "string world" where
  "sample_merged =
     sample_completed
       \<lparr>the_app := handleAddTransactions (extractedTransactions sample_completed_doc)
                     (the_app sample_completed)\<rparr>"

definition sample_other_doc :: "string UploadedFile" where
  "sample_other_doc = newFile (sample_env 7000) sample_file"

definition sample_two :: "string manager" where
  "sample_two =
     initial_manager\<lparr>uploadedFiles := [sample_rejected_doc, sample_other_doc],
                     selectedFile := Some sample_rejected_doc\<rparr>"

text \<open>The sample document deleted while its extraction is in flight, and the late failure.\<close>

definition sample_deleted :: "string world" where
  "sample_deleted =
     sample_uploaded\<lparr>the_manager := deleteFile (uf_id sample_doc) (the_manager sample_uploaded)\<rparr>"

definition sample_late :: "string world" where
  "sample_late =
     sample_deleted
       \<lparr>the_manager := processFile_resume sample_numerics (sample_env 2000) sample_doc
                         failure_call (the_manager sample_deleted),
        extracting := []\<rparr>"

text \<open>
  A ledger of \<open>n\<close> transactions, a stand-in for \<^verbatim>\<open>JSON.stringify\<close>, a service that
  answers the insight request with the text \<^verbatim>\<open>[1]\<close>, one that answers with prose and
  one that answers with the text \<^verbatim>\<open>{}\<close>, and what \<^verbatim>\<open>JSON.parse\<close> makes of the three
  texts.
\<close>

definition sample_transaction :: "nat \<Rightarrow> string Transaction" where
  "sample_transaction i =
     \<lparr>tx_id = show_nat i, tx_date = ''2024-05-01'', tx_amount = show_nat i,
      tx_category = ''food'', tx_description = ''Lunch'', tx_type = Expense\<rparr>"

definition sample_ledger :: "nat \<Rightarrow> string Transaction list" where
  "sample_ledger n = map sample_transaction [0..<n]"

definition sample_stringify :: "string Transaction list \<Rightarrow> string" where
  "sample_stringify ts = ''['' @ join '','' (map tx_id ts) @ '']''"

definition answers_numbers :: "request \<Rightarrow> fetch_result" where
  "answers_numbers req = Response True 200 [] (Data [Some ''[1]''])"

definition answers_prose :: "request \<Rightarrow> fetch_result" where
  "answers_prose req = Response True 200 [] (Data [Some ''Spend less on lunch.''])"

definition answers_object :: "request \<Rightarrow> fetch_result" where
  "answers_object req = Response True 200 [] (Data [Some ''{}''])"

definition parse_numbers :: "string \<Rightarrow> string json option" where
  "parse_numbers content =
     (if content = ''[1]'' then Some (JArr [JNum ''1''])
      else if content = ''{}'' then Some (JObj [])
      else None)"

section \<open>Auxiliary facts\<close>

lemma resume_files:
  "uploadedFiles (processFile_resume N e file r s) =
     map (\<lambda>f. if uf_id f = uf_id file then entry_after N e file r f else f) (uploadedFiles s)"
  by (simp add: processFile_resume_def processFile_catch_def entry_after_def mock_entry_def
      split: sum.splits parsed.splits option.splits)

lemma entry_after_id [simp]: "uf_id (entry_after N e file r f) = uf_id f"
  by (simp add: entry_after_def mock_entry_def split: sum.splits parsed.splits option.splits)

lemma entry_after_status: "status (entry_after N e file r f) \<noteq> Processing"
  by (simp add: entry_after_def mock_entry_def split: sum.splits parsed.splits option.splits)

lemma entry_after_thrown:
  "returned r = Inl err \<Longrightarrow> entry_after N e file r f = mock_entry N e file f"
  by (simp add: entry_after_def)

lemma entry_after_rejected:
  "returned r = Inr (Payload result) \<Longrightarrow> \<not> isValidDocument result \<Longrightarrow>
   entry_after N e file r f =
     f\<lparr>status := Error, aiAnalysis := Some (rejection_analysis (rejectionReason result))\<rparr>"
  by (simp add: entry_after_def)

lemma objects_None: "(objects xs = None) = (None \<in> set xs)"
  by (induction xs rule: objects.induct) auto

lemma objects_Some: "objects xs = Some ys \<Longrightarrow> None \<notin> set xs"
  using objects_None [of xs] by auto

lemma entry_after_caught:
  "try_throws r \<Longrightarrow> entry_after N e file r f = mock_entry N (caught_env e r) file f"
  by (auto simp: try_throws_def entry_after_def caught_env_def objects_None dest: objects_Some
      split: sum.splits parsed.splits option.splits)

lemma resume_console:
  "console (processFile_resume N e file r s) =
     console s @ logged r @ (if try_throws r then [''AI processing failed:''] else [])"
  by (auto simp: try_throws_def processFile_resume_def processFile_catch_def objects_None
      dest: objects_Some split: sum.splits parsed.splits option.splits)

lemma try_throws_cases:
  "try_throws r =
     ((\<exists>err. returned r = Inl err) \<or> returned r = Inr Null_payload \<or>
      (\<exists>result. returned r = Inr (Payload result) \<and> isValidDocument result \<and>
         (transactions result = None \<or>
          (\<exists>elements. transactions result = Some elements \<and> None \<in> set elements))))"
  by (auto simp: try_throws_def split: sum.splits parsed.splits option.splits)

lemma resume_ids:
  "map uf_id (uploadedFiles (processFile_resume N e file r s)) = map uf_id (uploadedFiles s)"
  by (simp add: resume_files comp_def if_distrib [of uf_id])

lemma resume_absent:
  "uf_id file \<notin> uf_id ` set (uploadedFiles s) \<Longrightarrow>
   uploadedFiles (processFile_resume N e file r s) = uploadedFiles s"
proof -
  assume "uf_id file \<notin> uf_id ` set (uploadedFiles s)"
  then have "\<forall>f\<in>set (uploadedFiles s). uf_id f \<noteq> uf_id file"
    by (auto simp: image_iff)
  then show ?thesis
    by (simp add: resume_files map_idI)
qed

lemma resume_other:
  "i < length (uploadedFiles s) \<Longrightarrow> uf_id (uploadedFiles s ! i) \<noteq> uf_id file \<Longrightarrow>
   uploadedFiles (processFile_resume N e file r s) ! i = uploadedFiles s ! i"
  by (simp add: resume_files)

lemma mockTransactions_nonempty: "mockTransactions N e \<noteq> []"
  by (simp add: mockTransactions_def)

lemma mockAnalysis_nonempty: "mockAnalysis N file txs \<noteq> []"
  by (simp add: mockAnalysis_def)

lemma files_onDrop [simp]:
  "uploadedFiles (onDrop_onload e file s) = uploadedFiles s @ [newFile e file]"
  by (simp add: onDrop_onload_def processFile_begin_def)

lemma files_deleteFile [simp]:
  "uploadedFiles (deleteFile i s) = filter (\<lambda>f. uf_id f \<noteq> i) (uploadedFiles s)"
  by (simp add: deleteFile_def Let_def)

lemma files_sendMessage_begin [simp]:
  "uploadedFiles (sendMessage_begin e s) = uploadedFiles s"
  by (simp add: sendMessage_begin_def)

lemma files_sendMessage_resume [simp]:
  "uploadedFiles (sendMessage_resume e sel r s) = uploadedFiles s"
  by (simp add: sendMessage_resume_def split: sum.splits)

lemma newFile_fresh [simp]:
  "status (newFile e file) = Processing" "extractedTransactions (newFile e file) = []"
  "aiAnalysis (newFile e file) = None"
  by (simp_all add: newFile_def)

lemma consistent_initial: "consistent (initial_world ledger)"
  by (simp add: consistent_def files_def initial_world_def initial_manager_def)

lemma consistent_FileRead:
  assumes "consistent w" and "fire N (FileRead e file) w = Some w'"
  shows "consistent w'"
proof -
  let ?nf = "newFile e file :: 'a UploadedFile"
  from assms(2) have fresh: "uf_id ?nf \<notin> set (issued w)"
    and w': "w' = w\<lparr>the_manager := onDrop_onload e file (the_manager w),
                   extracting := extracting w @ [?nf],
                   issued := issued w @ [uf_id ?nf]\<rparr>"
    by (auto split: if_splits)
  from assms(1) fresh have nf1: "\<forall>f \<in> set (files w). uf_id f \<noteq> uf_id ?nf"
    and nf2: "\<forall>t \<in> set (extracting w). uf_id t \<noteq> uf_id ?nf"
    by (auto simp: consistent_def)
  have fs: "files w' = files w @ [?nf]" and ex: "extracting w' = extracting w @ [?nf]"
    and iss: "issued w' = issued w @ [uf_id ?nf]"
    by (simp_all add: files_def w')
  have wait_old: "\<And>f. f \<in> set (files w) \<Longrightarrow> waiting w' (uf_id f) = waiting w (uf_id f)"
    using nf1 by (auto simp: waiting_def ex)
  have wait_new: "waiting w' (uf_id ?nf)"
    by (auto simp: waiting_def ex)
  show ?thesis
    unfolding consistent_def fs ex iss
    using assms(1) nf1 nf2 wait_old wait_new
    by (auto simp: consistent_def ex)
qed

lemma distinct_map_remove1_keep:
  "distinct (map g xs) \<Longrightarrow> distinct (map g (remove1 x xs))"
proof (induction xs)
  case Nil
  then show ?case by simp
next
  case (Cons a xs)
  have "set (remove1 x xs) \<subseteq> set xs"
    by (rule set_remove1_subset)
  then show ?case using Cons by auto
qed

lemma resume_entry:
  "f' \<in> set (uploadedFiles (processFile_resume N e file r s)) \<Longrightarrow>
   \<exists>f \<in> set (uploadedFiles s). uf_id f' = uf_id f \<and>
      (if uf_id f = uf_id file then status f' \<noteq> Processing else f' = f)"
  by (auto simp: resume_files entry_after_status split: if_splits)

lemma consistent_ExtractionSettled:
  assumes "consistent w" and "fire N (ExtractionSettled t r e) w = Some w'"
  shows "consistent w'"
proof -
  from assms(2) have t: "t \<in> set (extracting w)"
    and w': "w' = w\<lparr>the_manager := processFile_resume N e t r (the_manager w),
                   extracting := remove1 t (extracting w)\<rparr>"
    by (auto split: if_splits)
  from assms(1) have d: "distinct (map uf_id (extracting w))"
    by (simp add: consistent_def)
  have ids: "map uf_id (files w') = map uf_id (files w)"
    by (simp add: files_def w' resume_ids)
  have iss: "issued w' = issued w"
    by (simp add: w')
  have d': "distinct (map uf_id (extracting w'))"
    using d by (simp add: w' distinct_map_remove1_keep)
  have inj: "inj_on uf_id (set (extracting w))" and dex: "distinct (extracting w)"
    using d by (simp_all add: distinct_map)
  have rest: "set (extracting w') = set (extracting w) - {t}"
    using dex by (simp add: w')
  have gone: "\<not> waiting w' (uf_id t)"
    using inj t rest by (auto simp: inj_on_def waiting_def)
  have other: "\<And>i. i \<noteq> uf_id t \<Longrightarrow> waiting w' i = waiting w i"
    using rest by (auto simp: waiting_def)
  have issued_files: "\<forall>f \<in> set (files w'). uf_id f \<in> set (issued w')"
  proof
    fix f' assume "f' \<in> set (files w')"
    then have "uf_id f' \<in> set (map uf_id (files w))"
      using ids by (metis image_eqI set_map)
    then show "uf_id f' \<in> set (issued w')"
      using assms(1) by (auto simp: consistent_def iss)
  qed
  have entries: "\<forall>f' \<in> set (files w').
        (waiting w' (uf_id f') \<longrightarrow> f' \<in> set (extracting w')) \<and>
        (\<not> waiting w' (uf_id f') \<longrightarrow> status f' \<noteq> Processing)"
  proof
    fix f' assume "f' \<in> set (files w')"
    then obtain f where f: "f \<in> set (files w)" "uf_id f' = uf_id f"
      and upd: "if uf_id f = uf_id t then status f' \<noteq> Processing else f' = f"
      using resume_entry [of f' N e t r "the_manager w"] by (auto simp: files_def w')
    from assms(1) f(1) have old1: "waiting w (uf_id f) \<Longrightarrow> f \<in> set (extracting w)"
      and old2: "\<not> waiting w (uf_id f) \<Longrightarrow> status f \<noteq> Processing"
      by (simp_all add: consistent_def)
    show "(waiting w' (uf_id f') \<longrightarrow> f' \<in> set (extracting w')) \<and>
        (\<not> waiting w' (uf_id f') \<longrightarrow> status f' \<noteq> Processing)"
    proof (cases "uf_id f = uf_id t")
      case True
      then show ?thesis using upd gone f(2) by simp
    next
      case False
      then have same: "f' = f" using upd by simp
      have "f \<in> set (extracting w) \<Longrightarrow> f \<in> set (extracting w')"
        using False rest by auto
      then show ?thesis using old1 old2 same other [OF False] by auto
    qed
  qed
  have sub: "set (extracting w') \<subseteq> set (extracting w)"
    using rest by auto
  have flight: "\<forall>t \<in> set (extracting w'). uf_id t \<in> set (issued w') \<and>
       status t = Processing \<and> extractedTransactions t = []"
    using assms(1) sub by (auto simp: consistent_def iss)
  have dfiles: "distinct (map uf_id (files w'))"
    using assms(1) ids by (simp add: consistent_def)
  show ?thesis
    unfolding consistent_def
    using dfiles d' issued_files flight entries by blast
qed

lemma consistent_DeleteClicked:
  assumes "consistent w" and "fire N (DeleteClicked i) w = Some w'"
  shows "consistent w'"
proof -
  from assms(2) have w': "w' = w\<lparr>the_manager := deleteFile i (the_manager w)\<rparr>"
    by simp
  have fs: "files w' = filter (\<lambda>f. uf_id f \<noteq> i) (files w)"
    and ex: "extracting w' = extracting w" and iss: "issued w' = issued w"
    by (simp_all add: files_def w')
  have wt: "waiting w' = waiting w"
    by (simp add: waiting_def ex fun_eq_iff)
  show ?thesis
    unfolding consistent_def fs ex iss wt
    using assms(1) by (auto simp: consistent_def distinct_map_filter)
qed

lemma consistent_same_files:
  assumes "consistent w" and "files w' = files w" and "extracting w' = extracting w"
    and "issued w' = issued w"
  shows "consistent w'"
proof -
  have wt: "waiting w' = waiting w"
    by (simp add: waiting_def assms(3) fun_eq_iff)
  show ?thesis
    unfolding consistent_def assms(2,3,4) wt
    using assms(1) by (simp add: consistent_def)
qed

lemma consistent_fire:
  assumes "consistent w" and "fire N ev w = Some w'"
  shows "consistent w'"
proof (cases ev)
  case (FileRead e fl)
  then show ?thesis using assms consistent_FileRead by blast
next
  case (ExtractionSettled t r e)
  then show ?thesis using assms consistent_ExtractionSettled by blast
next
  case (DeleteClicked i)
  then show ?thesis using assms consistent_DeleteClicked by blast
next
  case (FileSelected sel)
  then show ?thesis using assms by (auto intro!: consistent_same_files [of w] simp: files_def)
next
  case (TabClicked t)
  then show ?thesis using assms by (auto intro!: consistent_same_files [of w] simp: files_def)
next
  case (Typed str)
  then show ?thesis using assms by (auto intro!: consistent_same_files [of w] simp: files_def)
next
  case (SendClicked e)
  then show ?thesis using assms
    by (auto intro!: consistent_same_files [of w] simp: files_def split: if_splits)
next
  case (ChatSettled sel r e)
  then show ?thesis using assms
    by (auto intro!: consistent_same_files [of w] simp: files_def split: if_splits)
next
  case (AddToTrackerClicked f)
  then show ?thesis using assms
    by (auto intro!: consistent_same_files [of w] simp: files_def split: if_splits)
next
  case (TransactionEntered e t)
  then show ?thesis using assms
    by (auto intro!: consistent_same_files [of w] simp: files_def)
qed

lemma consistent_run:
  "consistent w \<Longrightarrow> run N evs w = Some w' \<Longrightarrow> consistent w'"
proof (induction evs arbitrary: w)
  case Nil
  then show ?case by simp
next
  case (Cons ev evs)
  then show ?case
    by (auto split: option.splits dest: consistent_fire)
qed

lemma issued_fire: "fire N ev w = Some w1 \<Longrightarrow> set (issued w) \<subseteq> set (issued w1)"
  by (cases ev) (auto split: if_splits)

lemma files_fire_cases:
  assumes "fire N ev w = Some w1"
  shows "(\<exists>e fl. ev = FileRead e fl \<and> uf_id (newFile e fl :: 'a UploadedFile) \<notin> set (issued w) \<and>
            files w1 = files w @ [newFile e fl]) \<or>
         (\<exists>t r e. ev = ExtractionSettled t r e \<and> t \<in> set (extracting w) \<and>
            files w1 = uploadedFiles (processFile_resume N e t r (the_manager w))) \<or>
         (\<exists>i. ev = DeleteClicked i \<and> files w1 = filter (\<lambda>f. uf_id f \<noteq> i) (files w)) \<or>
         files w1 = files (w :: 'a world)"
  using assms by (cases ev) (auto simp: files_def split: if_splits)

lemma same_id_same_file:
  "distinct (map uf_id xs) \<Longrightarrow> f \<in> set xs \<Longrightarrow> g \<in> set xs \<Longrightarrow> uf_id g = uf_id f \<Longrightarrow> g = f"
  by (meson distinct_map inj_on_def)

lemma step_frozen:
  assumes c: "consistent w" and st: "fire N ev w = Some w1"
    and f: "f \<in> set (files w)" and f1: "f1 \<in> set (files w1)" and same: "uf_id f1 = uf_id f"
  shows "f1 = f \<or>
         (status f = Processing \<and> status f1 \<noteq> Processing \<and>
          (\<exists>t r e. ev = ExtractionSettled t r e \<and> uf_id t = uf_id f))"
proof -
  from c have d: "distinct (map uf_id (files w))"
    and known: "uf_id f \<in> set (issued w)"
    using f by (auto simp: consistent_def)
  from files_fire_cases [OF st] show ?thesis
  proof (elim disjE exE conjE)
    fix e fl
    assume fresh: "uf_id (newFile e fl :: 'a UploadedFile) \<notin> set (issued w)"
      and fs: "files w1 = files w @ [newFile e fl]"
    from f1 fs same fresh known have "f1 \<in> set (files w)"
      by auto
    then show ?thesis using same_id_same_file [OF d f _ same] by simp
  next
    fix t r e
    assume ev: "ev = ExtractionSettled t r e" and t: "t \<in> set (extracting w)"
      and fs: "files w1 = uploadedFiles (processFile_resume N e t r (the_manager w))"
    from f1 fs obtain g where g: "g \<in> set (files w)" "uf_id f1 = uf_id g"
      and upd: "if uf_id g = uf_id t then status f1 \<noteq> Processing else f1 = g"
      using resume_entry [of f1 N e t r "the_manager w"] by (auto simp: files_def)
    have gf: "g = f"
      using same_id_same_file [OF d f g(1)] g(2) same by simp
    show ?thesis
    proof (cases "uf_id f = uf_id t")
      case True
      then have "waiting w (uf_id f)"
        using t by (auto simp: waiting_def)
      then have "f \<in> set (extracting w)"
        using c f by (simp add: consistent_def)
      then have "status f = Processing"
        using c by (simp add: consistent_def)
      then show ?thesis using True upd gf ev by auto
    next
      case False
      then show ?thesis using upd gf by simp
    qed
  next
    fix i
    assume "files w1 = filter (\<lambda>f. uf_id f \<noteq> i) (files w)"
    then have "f1 \<in> set (files w)" using f1 by simp
    then show ?thesis using same_id_same_file [OF d f _ same] by simp
  next
    assume "files w1 = files w"
    then have "f1 \<in> set (files w)" using f1 by simp
    then show ?thesis using same_id_same_file [OF d f _ same] by simp
  qed
qed

lemma step_no_return:
  assumes st: "fire N ev w = Some w1"
    and f1: "f1 \<in> set (files w1)" and known: "uf_id f1 \<in> set (issued w)"
  shows "\<exists>f \<in> set (files w). uf_id f = uf_id f1"
proof -
  from files_fire_cases [OF st] show ?thesis
  proof (elim disjE exE conjE)
    fix e fl
    assume "uf_id (newFile e fl :: 'a UploadedFile) \<notin> set (issued w)"
      and "files w1 = files w @ [newFile e fl]"
    then show ?thesis using f1 known by auto
  next
    fix t r e
    assume fs: "files w1 = uploadedFiles (processFile_resume N e t r (the_manager w))"
    then show ?thesis
      using f1 resume_entry [of f1 N e t r "the_manager w"] by (auto simp: files_def)
  next
    fix i
    assume "files w1 = filter (\<lambda>f. uf_id f \<noteq> i) (files w)"
    then show ?thesis using f1 by auto
  next
    assume "files w1 = files w"
    then show ?thesis using f1 by auto
  qed
qed

lemma run_no_return:
  "run N evs w = Some w' \<Longrightarrow> f' \<in> set (files w') \<Longrightarrow> uf_id f' \<in> set (issued w) \<Longrightarrow>
   \<exists>f \<in> set (files w). uf_id f = uf_id f'"
proof (induction evs arbitrary: w)
  case Nil
  then show ?case by auto
next
  case (Cons ev evs)
  then obtain w1 where st: "fire N ev w = Some w1" and rest: "run N evs w1 = Some w'"
    by (auto split: option.splits)
  have "uf_id f' \<in> set (issued w1)"
    using issued_fire [OF st] Cons.prems(3) by auto
  then have "\<exists>f1 \<in> set (files w1). uf_id f1 = uf_id f'"
    using Cons.IH [OF rest Cons.prems(2)] by simp
  then show ?case
    using step_no_return [OF st] Cons.prems(3) by metis
qed

lemma run_frozen:
  "consistent w \<Longrightarrow> run N evs w = Some w' \<Longrightarrow> f \<in> set (files w) \<Longrightarrow>
   f' \<in> set (files w') \<Longrightarrow> uf_id f' = uf_id f \<Longrightarrow>
   f' = f \<or> (status f = Processing \<and> status f' \<noteq> Processing)"
proof (induction evs arbitrary: w f)
  case Nil
  then have "distinct (map uf_id (files w))" and "w' = w"
    by (auto simp: consistent_def)
  then show ?case using same_id_same_file Nil.prems(3,4,5) by metis
next
  case (Cons ev evs)
  then obtain w1 where st: "fire N ev w = Some w1" and rest: "run N evs w1 = Some w'"
    by (auto split: option.splits)
  have c1: "consistent w1"
    using consistent_fire [OF Cons.prems(1) st] .
  have "uf_id f' \<in> set (issued w)"
    using Cons.prems(1,3,5) by (auto simp: consistent_def)
  then have "uf_id f' \<in> set (issued w1)"
    using issued_fire [OF st] by auto
  then obtain f1 where f1: "f1 \<in> set (files w1)" "uf_id f1 = uf_id f'"
    using run_no_return [OF rest Cons.prems(4)] by auto
  have later: "f' = f1 \<or> (status f1 = Processing \<and> status f' \<noteq> Processing)"
    using Cons.IH [OF c1 rest f1(1) Cons.prems(4)] f1(2) by simp
  have first: "f1 = f \<or> (status f = Processing \<and> status f1 \<noteq> Processing)"
    using step_frozen [OF Cons.prems(1) st Cons.prems(3) f1(1)] f1(2) Cons.prems(5) by auto
  show ?case using first later by auto
qed

lemma returned_rejection_call: "returned rejection_call = Inr (Payload sample_rejection)"
  by (simp add: rejection_call_def extractTransactionsFromImage_def Let_def extraction_try_def
      first_content_def answers_rejection_def parse_rejection_def sample_key_def falsy_def)

lemma logged_rejection_call: "logged rejection_call = []"
  by (simp add: rejection_call_def extractTransactionsFromImage_def Let_def extraction_try_def
      first_content_def answers_rejection_def parse_rejection_def sample_key_def falsy_def)

lemma returned_unreadable_call: "returned unreadable_call = Inr (Payload sample_unreadable)"
  by (simp add: unreadable_call_def extractTransactionsFromImage_def Let_def extraction_try_def
      first_content_def answers_unreadable_def parse_unreadable_def sample_key_def falsy_def)

lemma returned_null_call: "returned null_call = Inr Null_payload"
  by (simp add: null_call_def extractTransactionsFromImage_def Let_def extraction_try_def
      first_content_def answers_null_def parse_null_def sample_key_def falsy_def)

lemma returned_holed_call: "returned holed_call = Inr (Payload sample_holed)"
  by (simp add: holed_call_def extractTransactionsFromImage_def Let_def extraction_try_def
      first_content_def answers_holed_def parse_holed_def sample_key_def falsy_def)

lemma caught_env_early:
  "(\<exists>err. returned r = Inl err) \<or> returned r = Inr Null_payload \<or>
   (\<exists>result. returned r = Inr (Payload result) \<and> transactions result = None) \<Longrightarrow>
   caught_env e r = e"
  by (auto simp: caught_env_def)

lemma caught_env_map:
  "returned r = Inr (Payload result) \<Longrightarrow> transactions result = Some elements \<Longrightarrow>
   caught_env e r = later (readings elements) e"
  by (simp add: caught_env_def)

lemma returned_failure_call: "returned failure_call = Inl FetchRejected"
  by (simp add: failure_call_def extractTransactionsFromImage_def Let_def extraction_try_def
      offline_def sample_key_def falsy_def)

lemma logged_failure_call: "logged failure_call = [''Error extracting transactions:'']"
  by (simp add: failure_call_def extractTransactionsFromImage_def Let_def extraction_try_def
      offline_def sample_key_def falsy_def)

lemmas sample_defs =
  sample_doc_def sample_uploaded_def sample_rejected_def sample_rejected_doc_def
  sample_rejection_def returned_rejection_call logged_rejection_call returned_failure_call
  logged_failure_call newFile_def sample_env_def sample_file_def
  sample_numerics_def initial_world_def initial_manager_def onDrop_onload_def
  processFile_begin_def processFile_resume_def processFile_catch_def rejection_analysis_def falsy_def template_def
  startsWith_def

lemma run_sample_uploaded:
  "run sample_numerics [FileRead (sample_env 1000) sample_file] (initial_world []) =
   Some sample_uploaded"
  by (simp add: sample_defs)

lemma fire_sample_rejected:
  "fire sample_numerics
     (ExtractionSettled sample_doc rejection_call (sample_env 2000))
     sample_uploaded = Some sample_rejected"
  by (simp add: sample_defs)

lemma files_sample_rejected:
  "uploadedFiles (the_manager sample_rejected) = [sample_rejected_doc]"
  by (simp add: sample_defs)

lemma fire_sample_completed:
  "fire sample_numerics
     (ExtractionSettled sample_doc failure_call (sample_env 2000))
     sample_uploaded = Some sample_completed"
  by (simp add: sample_defs sample_completed_def)

lemma files_sample_completed:
  "uploadedFiles (the_manager sample_completed) = [sample_completed_doc]"
  by (simp add: sample_defs sample_completed_def sample_completed_doc_def)

lemma files_sample_uploaded:
  "uploadedFiles (the_manager sample_uploaded) = [sample_doc]"
  by (simp add: sample_defs)

lemma slice_neg_length: "n \<le> length xs \<Longrightarrow> length (slice_neg n xs) = n"
  by (simp add: slice_neg_def)

lemma slice_neg_nth:
  "n \<le> length xs \<Longrightarrow> i < n \<Longrightarrow> slice_neg n xs ! i = xs ! (length xs - n + i)"
  by (simp add: slice_neg_def)

lemma extraction_errors:
  "returned (extractTransactionsFromImage JSON_parse fetch key img) = Inl err \<Longrightarrow>
   (error_kind err = ServiceUnavailable) = falsy key"
  by (auto simp: extractTransactionsFromImage_def Let_def extraction_try_def
      split: if_splits fetch_result.splits body.splits option.splits)

lemma insights_try_cases:
  "insights_try JSON_parse response = Inr xs \<Longrightarrow>
   xs = [] \<or>
   (\<exists>st txt content cs.
      response = Response True st txt (Data (Some content # cs)) \<and> content \<noteq> [] \<and>
      JSON_parse content = Some (JArr xs))"
  by (auto simp: insights_try_def first_content_def
      split: fetch_result.splits if_splits body.splits option.splits json.splits list.splits)

lemma deleted_in_flight_stays_away:
  assumes reach: "run N evs (initial_world ledger) = Some w"
    and flight: "t \<in> set (extracting w)"
    and later: "run N (DeleteClicked (uf_id t) # evs') w = Some w1"
  shows "\<forall>f \<in> set (uploadedFiles (the_manager w1)). uf_id f \<noteq> uf_id t"
proof -
  have c: "consistent w"
    using consistent_run [OF consistent_initial reach] .
  define wd where "wd = w\<lparr>the_manager := deleteFile (uf_id t) (the_manager w)\<rparr>"
  have rest: "run N evs' wd = Some w1"
    using later by (simp add: wd_def)
  have known: "uf_id t \<in> set (issued wd)"
    using c flight by (simp add: consistent_def wd_def)
  have none: "\<forall>f \<in> set (files wd). uf_id f \<noteq> uf_id t"
    by (simp add: files_def wd_def)
  show ?thesis
  proof
    fix f assume f: "f \<in> set (uploadedFiles (the_manager w1))"
    show "uf_id f \<noteq> uf_id t"
    proof
      assume same: "uf_id f = uf_id t"
      have listed: "f \<in> set (files w1)" using f by (simp add: files_def)
      have "uf_id f \<in> set (issued wd)" using known same by simp
      then have "\<exists>g \<in> set (files wd). uf_id g = uf_id f"
        by (rule run_no_return [OF rest listed])
      then show False using none same by auto
    qed
  qed
qed

section \<open>The claims\<close>

subsection \<open>C1: an invalid document is rejected and keeps no transactions\<close>

text \<open>
  Claim C1. For every uploaded document, if the result of the extraction service has
  \<^verbatim>\<open>isValidDocument = false\<close>, then after processing the document's status is rejected
  (the source's \<^verbatim>\<open>'error'\<close>) and its \<^verbatim>\<open>extractedTransactions\<close> is empty, whatever
  transactions the raw result holds. In any state the component can reach, when the
  extraction of an uploaded file settles with such a result, every listed document with
  that file's id is in status \<open>Error\<close> with no transactions, and the document is still
  listed if it was before.
\<close>

theorem invalid_document_is_rejected_without_transactions:
  assumes "run N evs (initial_world ledger) = Some w"
    and "fire N (ExtractionSettled file r e) w = Some w'"
    and "returned r = Inr (Payload result)"
    and "\<not> isValidDocument result"
  shows "(\<forall>f' \<in> set (uploadedFiles (the_manager w')).
            uf_id f' = uf_id file \<longrightarrow> status f' = Error \<and> extractedTransactions f' = []) \<and>
         (\<forall>f \<in> set (uploadedFiles (the_manager w)).
            uf_id f = uf_id file \<longrightarrow>
            (\<exists>f' \<in> set (uploadedFiles (the_manager w')). uf_id f' = uf_id file))"
proof -
  have c: "consistent w"
    using consistent_run [OF consistent_initial assms(1)] .
  from assms(2) have t: "file \<in> set (extracting w)"
    and w': "the_manager w' = processFile_resume N e file r (the_manager w)"
    by (auto split: if_splits)
  have fs: "uploadedFiles (the_manager w') =
      map (\<lambda>f. if uf_id f = uf_id file
               then f\<lparr>status := Error,
                      aiAnalysis := Some (rejection_analysis (rejectionReason result))\<rparr>
               else f)
          (uploadedFiles (the_manager w))"
    using assms(3,4) by (simp add: w' resume_files entry_after_rejected)
  have empty: "\<And>f. f \<in> set (uploadedFiles (the_manager w)) \<Longrightarrow> uf_id f = uf_id file \<Longrightarrow>
      extractedTransactions f = []"
  proof -
    fix f assume f: "f \<in> set (uploadedFiles (the_manager w))" "uf_id f = uf_id file"
    then have "waiting w (uf_id f)"
      using t by (auto simp: waiting_def)
    then have "f \<in> set (extracting w)"
      using c f(1) by (simp add: consistent_def files_def)
    then show "extractedTransactions f = []"
      using c by (simp add: consistent_def)
  qed
  have first: "\<forall>f' \<in> set (uploadedFiles (the_manager w')).
            uf_id f' = uf_id file \<longrightarrow> status f' = Error \<and> extractedTransactions f' = []"
    using empty by (auto simp: fs)
  have ids: "map uf_id (uploadedFiles (the_manager w')) = map uf_id (uploadedFiles (the_manager w))"
    by (simp add: w' resume_ids)
  have second: "\<forall>f \<in> set (uploadedFiles (the_manager w)).
            uf_id f = uf_id file \<longrightarrow>
            (\<exists>f' \<in> set (uploadedFiles (the_manager w')). uf_id f' = uf_id file)"
  proof (intro ballI impI)
    fix f assume "f \<in> set (uploadedFiles (the_manager w))" "uf_id f = uf_id file"
    then have "uf_id file \<in> set (map uf_id (uploadedFiles (the_manager w)))"
      by (metis image_eqI set_map)
    then have "uf_id file \<in> set (map uf_id (uploadedFiles (the_manager w')))"
      by (simp only: ids)
    then show "\<exists>f' \<in> set (uploadedFiles (the_manager w')). uf_id f' = uf_id file"
      by auto
  qed
  show ?thesis using first second by simp
qed

text \<open>The theorem at a concrete input.\<close>

theorem invalid_document_is_rejected_without_transactions_witness:
  "run sample_numerics [FileRead (sample_env 1000) sample_file] (initial_world []) =
     Some sample_uploaded \<and>
   fire sample_numerics
     (ExtractionSettled sample_doc rejection_call (sample_env 2000))
     sample_uploaded = Some sample_rejected \<and>
   returned rejection_call = Inr (Payload sample_rejection) \<and>
   isValidDocument sample_rejection = False \<and>
   map_option length (transactions sample_rejection) = Some 1 \<and>
   sample_rejected_doc \<in> set (uploadedFiles (the_manager sample_rejected)) \<and>
   uf_id sample_rejected_doc = uf_id sample_doc \<and>
   status sample_rejected_doc = Error \<and>
   extractedTransactions sample_rejected_doc = []"
proof -
  have h1: "run sample_numerics [FileRead (sample_env 1000) sample_file] (initial_world []) =
     Some sample_uploaded"
    by (rule run_sample_uploaded)
  have h2: "fire sample_numerics
     (ExtractionSettled sample_doc rejection_call (sample_env 2000))
     sample_uploaded = Some sample_rejected"
    by (rule fire_sample_rejected)
  have h3: "returned rejection_call = Inr (Payload sample_rejection)"
    by (rule returned_rejection_call)
  have h4: "\<not> isValidDocument sample_rejection"
    by (simp add: sample_rejection_def)
  have listed: "sample_rejected_doc \<in> set (uploadedFiles (the_manager sample_rejected))"
    by (simp add: files_sample_rejected)
  have same: "uf_id sample_rejected_doc = uf_id sample_doc"
    by (simp add: sample_rejected_doc_def)
  have "status sample_rejected_doc = Error \<and> extractedTransactions sample_rejected_doc = []"
    using invalid_document_is_rejected_without_transactions [OF h1 h2 h3 h4] listed same
    by blast
  then show ?thesis
    using h1 h2 h3 h4 listed same by (simp add: sample_rejection_def)
qed

subsection \<open>C2: a failed extraction still completes the document\<close>

text \<open>
  Claim C2. If the extraction call fails with a transport error or an undecodable response,
  the document still reaches status completed, with a non-empty
  \<^verbatim>\<open>extractedTransactions\<close> and a non-empty analysis produced by the fallback. Whatever
  the state \<open>s\<close> at the moment the call settles: every listed document with the file's id
  is then \<open>Completed\<close> with transactions and a non-empty analysis, and the document is
  listed afterwards if it was listed before.
\<close>

theorem extraction_failure_completes_with_fallback:
  assumes "returned r = Inl err"
    and "error_kind err = TransportError \<or> error_kind err = MalformedResponse"
  shows "(\<forall>f' \<in> set (uploadedFiles (processFile_resume N e file r s)).
            uf_id f' = uf_id file \<longrightarrow>
            status f' = Completed \<and>
            extractedTransactions f' \<noteq> [] \<and>
            (\<exists>a. aiAnalysis f' = Some a \<and> a \<noteq> [])) \<and>
         (uf_id file \<in> uf_id ` set (uploadedFiles s) \<longrightarrow>
            uf_id file \<in> uf_id ` set (uploadedFiles (processFile_resume N e file r s)))"
proof -
  have ids: "uf_id ` set (uploadedFiles (processFile_resume N e file r s)) =
             uf_id ` set (uploadedFiles s)"
    using resume_ids by (metis set_map)
  have "\<forall>f' \<in> set (uploadedFiles (processFile_resume N e file r s)).
            uf_id f' = uf_id file \<longrightarrow>
            status f' = Completed \<and>
            extractedTransactions f' \<noteq> [] \<and>
            (\<exists>a. aiAnalysis f' = Some a \<and> a \<noteq> [])"
    using assms(1)
    by (auto simp: resume_files entry_after_thrown mock_entry_def mockTransactions_nonempty
        mockAnalysis_nonempty)
  then show ?thesis using ids by simp
qed

text \<open>The theorem at a concrete input.\<close>

theorem extraction_failure_completes_with_fallback_witness:
  "returned failure_call =
     Inl FetchRejected \<and>
   error_kind FetchRejected = TransportError \<and>
   uf_id sample_doc \<in> uf_id ` set (uploadedFiles (the_manager sample_uploaded)) \<and>
   (\<exists>f' \<in> set (uploadedFiles (processFile_resume sample_numerics (sample_env 2000) sample_doc
                  failure_call (the_manager sample_uploaded))).
      uf_id f' = uf_id sample_doc \<and> status f' = Completed \<and>
      extractedTransactions f' \<noteq> [] \<and> (\<exists>a. aiAnalysis f' = Some a \<and> a \<noteq> []))"
proof -
  have h1: "returned failure_call =
     Inl FetchRejected"
    by (rule returned_failure_call)
  have h2: "error_kind FetchRejected = TransportError \<or> error_kind FetchRejected = MalformedResponse"
    by simp
  have listed: "uf_id sample_doc \<in> uf_id ` set (uploadedFiles (the_manager sample_uploaded))"
    by (simp add: files_sample_uploaded)
  note fact = extraction_failure_completes_with_fallback
    [OF h1 h2, of sample_numerics "sample_env 2000" sample_doc "the_manager sample_uploaded"]
  from fact listed obtain f' where
    "f' \<in> set (uploadedFiles (processFile_resume sample_numerics (sample_env 2000) sample_doc
                  failure_call (the_manager sample_uploaded)))"
    "uf_id f' = uf_id sample_doc"
    by (elim conjE) (auto simp only: image_iff)
  then have "\<exists>f' \<in> set (uploadedFiles (processFile_resume sample_numerics (sample_env 2000) sample_doc
                  failure_call (the_manager sample_uploaded))).
      uf_id f' = uf_id sample_doc \<and> status f' = Completed \<and>
      extractedTransactions f' \<noteq> [] \<and> (\<exists>a. aiAnalysis f' = Some a \<and> a \<noteq> [])"
    using fact by blast
  then show ?thesis using h1 listed by simp
qed

subsection \<open>C3: which failures the fallback absorbs\<close>

text \<open>
  Claim C3 says that the fallback runs only for a transport error or an undecodable
  response, and that a missing credential disables the feature up front instead of failing
  per document and being absorbed by the fallback. The source checks the credential inside
  \<open>extractTransactionsFromImage\<close>, before the request is built, and throws; the
  \<^verbatim>\<open>catch\<close> of \<open>processFile\<close> takes whatever its \<^verbatim>\<open>try\<close> block throws.

  Claim C3, as amended. With no credential configured the call sends no request and throws
  'OpenAI API key not configured'; an error of the call is of the kind
  \<open>ServiceUnavailable\<close> exactly when no credential is configured. The fallback (which
  logs 'AI processing failed:') runs exactly when the awaited call throws, whatever the
  error, or returns a payload that \<open>processFile\<close> cannot read: \<^verbatim>\<open>null\<close>, or a payload
  with \<^verbatim>\<open>isValidDocument\<close> set and no array of transactions, or with a \<^verbatim>\<open>null\<close> in that
  array. When the fallback runs, it completes the document with the mock transactions and
  the mock analysis, built from the platform as the \<^verbatim>\<open>catch\<close> block finds it: the clock
  has been read only where the \<^verbatim>\<open>try\<close> block got to the elements of the array. When the
  fallback does not run, nothing but the lines of the call is logged.
\<close>

theorem fallback_absorbs_every_extraction_error:
  "(falsy OPENAI_API_KEY \<longrightarrow>
      extractTransactionsFromImage JSON_parse fetch OPENAI_API_KEY imageData =
        \<lparr>sent = [], logged = [], returned = Inl ApiKeyNotConfigured\<rparr>) \<and>
   (\<forall>err. returned (extractTransactionsFromImage JSON_parse fetch OPENAI_API_KEY imageData) = Inl err
      \<longrightarrow> (error_kind err = ServiceUnavailable) = falsy OPENAI_API_KEY) \<and>
   ((console (processFile_resume N e doc r s) =
       console s @ logged r @ [''AI processing failed:'']) =
    ((\<exists>err. returned r = Inl err) \<or>
     returned r = Inr Null_payload \<or>
     (\<exists>result. returned r = Inr (Payload result) \<and> isValidDocument result \<and>
        (transactions result = None \<or>
         (\<exists>elements. transactions result = Some elements \<and> None \<in> set elements))))) \<and>
   ((\<exists>err. returned r = Inl err) \<or>
    returned r = Inr Null_payload \<or>
    (\<exists>result. returned r = Inr (Payload result) \<and> isValidDocument result \<and>
       transactions result = None) \<longrightarrow>
      (\<forall>f' \<in> set (uploadedFiles (processFile_resume N e doc r s)).
         uf_id f' = uf_id doc \<longrightarrow>
         status f' = Completed \<and>
         extractedTransactions f' = mockTransactions N e \<and>
         aiAnalysis f' = Some (mockAnalysis N doc (mockTransactions N e)))) \<and>
   (\<forall>result elements.
      returned r = Inr (Payload result) \<and> isValidDocument result \<and>
      transactions result = Some elements \<and> None \<in> set elements \<longrightarrow>
      (\<forall>f' \<in> set (uploadedFiles (processFile_resume N e doc r s)).
         uf_id f' = uf_id doc \<longrightarrow>
         status f' = Completed \<and>
         extractedTransactions f' = mockTransactions N (later (readings elements) e) \<and>
         aiAnalysis f' =
           Some (mockAnalysis N doc (mockTransactions N (later (readings elements) e))))) \<and>
   (console (processFile_resume N e doc r s) \<noteq>
      console s @ logged r @ [''AI processing failed:''] \<longrightarrow>
      console (processFile_resume N e doc r s) = console s @ logged r)"
proof -
  let ?fallback = "console (processFile_resume N e doc r s) =
      console s @ logged r @ [''AI processing failed:'']"
  have early: "falsy OPENAI_API_KEY \<longrightarrow>
      extractTransactionsFromImage JSON_parse fetch OPENAI_API_KEY imageData =
        \<lparr>sent = [], logged = [], returned = Inl ApiKeyNotConfigured\<rparr>"
    by (simp add: extractTransactionsFromImage_def)
  have kinds: "\<forall>err. returned (extractTransactionsFromImage JSON_parse fetch OPENAI_API_KEY imageData) = Inl err
      \<longrightarrow> (error_kind err = ServiceUnavailable) = falsy OPENAI_API_KEY"
    using extraction_errors by blast
  have thrown: "?fallback = try_throws r"
    by (simp add: resume_console)
  have causes: "?fallback =
    ((\<exists>err. returned r = Inl err) \<or>
     returned r = Inr Null_payload \<or>
     (\<exists>result. returned r = Inr (Payload result) \<and> isValidDocument result \<and>
        (transactions result = None \<or>
         (\<exists>elements. transactions result = Some elements \<and> None \<in> set elements))))"
    unfolding thrown by (rule try_throws_cases)
  have mock: "try_throws r \<Longrightarrow> f' \<in> set (uploadedFiles (processFile_resume N e doc r s)) \<Longrightarrow>
      uf_id f' = uf_id doc \<Longrightarrow>
      status f' = Completed \<and>
      extractedTransactions f' = mockTransactions N (caught_env e r) \<and>
      aiAnalysis f' = Some (mockAnalysis N doc (mockTransactions N (caught_env e r)))" for f'
    by (auto simp: resume_files entry_after_caught mock_entry_def)
  have early_mock: "(\<exists>err. returned r = Inl err) \<or>
    returned r = Inr Null_payload \<or>
    (\<exists>result. returned r = Inr (Payload result) \<and> isValidDocument result \<and>
       transactions result = None) \<longrightarrow>
      (\<forall>f' \<in> set (uploadedFiles (processFile_resume N e doc r s)).
         uf_id f' = uf_id doc \<longrightarrow>
         status f' = Completed \<and>
         extractedTransactions f' = mockTransactions N e \<and>
         aiAnalysis f' = Some (mockAnalysis N doc (mockTransactions N e)))"
  proof (intro impI ballI)
    fix f'
    assume cause: "(\<exists>err. returned r = Inl err) \<or>
      returned r = Inr Null_payload \<or>
      (\<exists>result. returned r = Inr (Payload result) \<and> isValidDocument result \<and>
         transactions result = None)"
      and listed: "f' \<in> set (uploadedFiles (processFile_resume N e doc r s))"
      and same: "uf_id f' = uf_id doc"
    have throws: "try_throws r"
      using cause by (auto simp: try_throws_cases)
    have env: "caught_env e r = e"
      using cause by (intro caught_env_early) auto
    show "status f' = Completed \<and>
         extractedTransactions f' = mockTransactions N e \<and>
         aiAnalysis f' = Some (mockAnalysis N doc (mockTransactions N e))"
      using mock [OF throws listed same] by (simp add: env)
  qed
  have map_mock: "\<forall>result elements.
      returned r = Inr (Payload result) \<and> isValidDocument result \<and>
      transactions result = Some elements \<and> None \<in> set elements \<longrightarrow>
      (\<forall>f' \<in> set (uploadedFiles (processFile_resume N e doc r s)).
         uf_id f' = uf_id doc \<longrightarrow>
         status f' = Completed \<and>
         extractedTransactions f' = mockTransactions N (later (readings elements) e) \<and>
         aiAnalysis f' =
           Some (mockAnalysis N doc (mockTransactions N (later (readings elements) e))))"
  proof (intro allI impI ballI)
    fix result elements f'
    assume cause: "returned r = Inr (Payload result) \<and> isValidDocument result \<and>
        transactions result = Some elements \<and> None \<in> set elements"
      and listed: "f' \<in> set (uploadedFiles (processFile_resume N e doc r s))"
      and same: "uf_id f' = uf_id doc"
    have throws: "try_throws r"
      using cause by (auto simp: try_throws_cases)
    have env: "caught_env e r = later (readings elements) e"
      using cause by (intro caught_env_map) auto
    show "status f' = Completed \<and>
         extractedTransactions f' = mockTransactions N (later (readings elements) e) \<and>
         aiAnalysis f' =
           Some (mockAnalysis N doc (mockTransactions N (later (readings elements) e)))"
      using mock [OF throws listed same] by (simp add: env)
  qed
  have quiet: "\<not> ?fallback \<longrightarrow> console (processFile_resume N e doc r s) = console s @ logged r"
    unfolding thrown by (simp add: resume_console)
  show ?thesis
    by (intro conjI early kinds causes early_mock map_mock quiet)
qed

text \<open>
  Claim C3 as stated fails: with no credential, and a network that is never reached, the
  uploaded sample document is completed by the fallback.
\<close>

theorem fallback_without_credential_counterexample:
  "falsy None \<and>
   extractTransactionsFromImage no_extraction offline None (preview sample_doc) =
     \<lparr>sent = [], logged = [], returned = Inl ApiKeyNotConfigured\<rparr> \<and>
   error_kind ApiKeyNotConfigured = ServiceUnavailable \<and>
   uploadedFiles (processFile sample_numerics (sample_env 2000) no_extraction offline None
                    sample_doc (the_manager sample_uploaded)) =
     [sample_doc\<lparr>status := Completed,
                 extractedTransactions := mockTransactions sample_numerics (sample_env 2000),
                 aiAnalysis := Some (mockAnalysis sample_numerics sample_doc
                                       (mockTransactions sample_numerics (sample_env 2000)))\<rparr>] \<and>
   console (processFile sample_numerics (sample_env 2000) no_extraction offline None
              sample_doc (the_manager sample_uploaded)) = [''AI processing failed:'']"
proof -
  let ?r = "extractTransactionsFromImage no_extraction offline None (preview sample_doc)"
  have h: "falsy None"
    by (simp add: falsy_def)
  have call: "?r = \<lparr>sent = [], logged = [], returned = Inl ApiKeyNotConfigured\<rparr>"
    by (simp add: extractTransactionsFromImage_def falsy_def)
  have kind: "error_kind ApiKeyNotConfigured = ServiceUnavailable"
    by simp
  have listed: "uploadedFiles (processFile sample_numerics (sample_env 2000) no_extraction offline
      None sample_doc (the_manager sample_uploaded)) =
     [sample_doc\<lparr>status := Completed,
                 extractedTransactions := mockTransactions sample_numerics (sample_env 2000),
                 aiAnalysis := Some (mockAnalysis sample_numerics sample_doc
                                       (mockTransactions sample_numerics (sample_env 2000)))\<rparr>]"
    by (simp add: processFile_def resume_files call entry_after_thrown mock_entry_def
        processFile_begin_def files_sample_uploaded)
  have logged: "console (processFile sample_numerics (sample_env 2000) no_extraction offline None
              sample_doc (the_manager sample_uploaded)) = [''AI processing failed:'']"
    by (simp add: processFile_def resume_console call try_throws_def processFile_begin_def
        sample_uploaded_def initial_world_def initial_manager_def onDrop_onload_def)
  show ?thesis
    by (intro conjI h call kind listed logged)
qed

text \<open>
  The amended claim C3 at the same input, at the payload \<^verbatim>\<open>null\<close>, at a payload that
  sets \<^verbatim>\<open>isValidDocument\<close> and has no transactions, at one whose second transaction is
  \<^verbatim>\<open>null\<close>, and at a rejection.
\<close>

theorem fallback_absorbs_every_extraction_error_witness:
  "falsy None \<and>
   extractTransactionsFromImage no_extraction offline None (preview sample_doc) =
     \<lparr>sent = [], logged = [], returned = Inl ApiKeyNotConfigured\<rparr> \<and>
   error_kind ApiKeyNotConfigured = ServiceUnavailable \<and>
   console (processFile_resume sample_numerics (sample_env 2000) sample_doc
              (extractTransactionsFromImage no_extraction offline None (preview sample_doc))
              (the_manager sample_uploaded)) =
     console (the_manager sample_uploaded) @
     logged (extractTransactionsFromImage no_extraction offline None (preview sample_doc)) @
     [''AI processing failed:''] \<and>
   sample_completed_doc \<in> set (uploadedFiles
     (processFile_resume sample_numerics (sample_env 2000) sample_doc
        (extractTransactionsFromImage no_extraction offline None (preview sample_doc))
        (the_manager sample_uploaded))) \<and>
   uf_id sample_completed_doc = uf_id sample_doc \<and>
   status sample_completed_doc = Completed \<and>
   extractedTransactions sample_completed_doc = mockTransactions sample_numerics (sample_env 2000) \<and>
   returned null_call = Inr Null_payload \<and>
   console (processFile_resume sample_numerics (sample_env 2000) sample_doc null_call
              (the_manager sample_uploaded)) =
     console (the_manager sample_uploaded) @ logged null_call @ [''AI processing failed:''] \<and>
   returned unreadable_call = Inr (Payload sample_unreadable) \<and>
   isValidDocument sample_unreadable = True \<and>
   transactions sample_unreadable = None \<and>
   console (processFile_resume sample_numerics (sample_env 2000) sample_doc unreadable_call
              (the_manager sample_uploaded)) =
     console (the_manager sample_uploaded) @ logged unreadable_call @
     [''AI processing failed:''] \<and>
   returned holed_call = Inr (Payload sample_holed) \<and>
   isValidDocument sample_holed = True \<and>
   map_option length (transactions sample_holed) = Some 2 \<and>
   map_option (\<lambda>elements. elements ! 1) (transactions sample_holed) = Some None \<and>
   map_option readings (transactions sample_holed) = Some 2 \<and>
   uploadedFiles (processFile_resume sample_numerics (sample_env 2000) sample_doc holed_call
                    (the_manager sample_uploaded)) =
     [sample_doc\<lparr>status := Completed,
                 extractedTransactions :=
                   mockTransactions sample_numerics (later 2 (sample_env 2000)),
                 aiAnalysis :=
                   Some (mockAnalysis sample_numerics sample_doc
                           (mockTransactions sample_numerics (later 2 (sample_env 2000))))\<rparr>] \<and>
   map tx_id (mockTransactions sample_numerics (later 2 (sample_env 2000))) =
     [''2002'', ''2004''] \<and>
   returned rejection_call = Inr (Payload sample_rejection) \<and>
   isValidDocument sample_rejection = False \<and>
   console (processFile_resume sample_numerics (sample_env 2000) sample_doc rejection_call
              (the_manager sample_uploaded)) =
     console (the_manager sample_uploaded) @ logged rejection_call"
proof -
  let ?r = "extractTransactionsFromImage no_extraction offline None (preview sample_doc)"
  note fact = fallback_absorbs_every_extraction_error
    [where OPENAI_API_KEY = None and JSON_parse = no_extraction and fetch = offline
       and imageData = "preview sample_doc" and r = ?r and N = sample_numerics
       and e = "sample_env 2000" and doc = sample_doc and s = "the_manager sample_uploaded"]
  note c1 = conjunct1 [OF fact]
  note c2 = conjunct1 [OF conjunct2 [OF fact]]
  note c3 = conjunct1 [OF conjunct2 [OF conjunct2 [OF fact]]]
  note c4 = conjunct1 [OF conjunct2 [OF conjunct2 [OF conjunct2 [OF fact]]]]
  have h: "falsy None"
    by (simp add: falsy_def)
  have call: "?r = \<lparr>sent = [], logged = [], returned = Inl ApiKeyNotConfigured\<rparr>"
    using c1 h by blast
  have thrown: "returned ?r = Inl ApiKeyNotConfigured"
    by (simp add: call)
  have kind: "error_kind ApiKeyNotConfigured = ServiceUnavailable"
    using c2 thrown h by blast
  have log: "console (processFile_resume sample_numerics (sample_env 2000) sample_doc ?r
              (the_manager sample_uploaded)) =
     console (the_manager sample_uploaded) @ logged ?r @ [''AI processing failed:'']"
    using c3 thrown by blast
  have listed: "sample_completed_doc \<in> set (uploadedFiles
     (processFile_resume sample_numerics (sample_env 2000) sample_doc ?r
        (the_manager sample_uploaded)))"
    by (simp add: resume_files thrown entry_after_thrown mock_entry_def files_sample_uploaded
        sample_completed_doc_def)
  have same: "uf_id sample_completed_doc = uf_id sample_doc"
    by (simp add: sample_completed_doc_def)
  have all: "\<forall>f' \<in> set (uploadedFiles (processFile_resume sample_numerics (sample_env 2000)
        sample_doc ?r (the_manager sample_uploaded))).
         uf_id f' = uf_id sample_doc \<longrightarrow>
         status f' = Completed \<and>
         extractedTransactions f' = mockTransactions sample_numerics (sample_env 2000) \<and>
         aiAnalysis f' = Some (mockAnalysis sample_numerics sample_doc
                                 (mockTransactions sample_numerics (sample_env 2000)))"
    using c4 thrown by blast
  have finished: "status sample_completed_doc = Completed \<and>
     extractedTransactions sample_completed_doc = mockTransactions sample_numerics (sample_env 2000)"
    using bspec [OF all listed] same by simp
  note null = fallback_absorbs_every_extraction_error
    [where r = null_call and N = sample_numerics
       and e = "sample_env 2000" and doc = sample_doc and s = "the_manager sample_uploaded"]
  note n3 = conjunct1 [OF conjunct2 [OF conjunct2 [OF null]]]
  have n_ret: "returned null_call = Inr Null_payload"
    by (rule returned_null_call)
  have n_log: "console (processFile_resume sample_numerics (sample_env 2000) sample_doc
      null_call (the_manager sample_uploaded)) =
     console (the_manager sample_uploaded) @ logged null_call @ [''AI processing failed:'']"
    using n3 n_ret by blast
  note unread = fallback_absorbs_every_extraction_error
    [where r = unreadable_call and N = sample_numerics
       and e = "sample_env 2000" and doc = sample_doc and s = "the_manager sample_uploaded"]
  note u3 = conjunct1 [OF conjunct2 [OF conjunct2 [OF unread]]]
  have u_ret: "returned unreadable_call = Inr (Payload sample_unreadable)"
    by (rule returned_unreadable_call)
  have u_valid: "isValidDocument sample_unreadable = True"
    and u_none: "transactions sample_unreadable = None"
    by (simp_all add: sample_unreadable_def)
  have u_log: "console (processFile_resume sample_numerics (sample_env 2000) sample_doc
      unreadable_call (the_manager sample_uploaded)) =
     console (the_manager sample_uploaded) @ logged unreadable_call @ [''AI processing failed:'']"
    using u3 u_ret u_valid u_none by blast
  note rej = fallback_absorbs_every_extraction_error
    [where r = rejection_call and N = sample_numerics
       and e = "sample_env 2000" and doc = sample_doc and s = "the_manager sample_uploaded"]
  note r3 = conjunct1 [OF conjunct2 [OF conjunct2 [OF rej]]]
  note r6 = conjunct2 [OF conjunct2 [OF conjunct2 [OF conjunct2 [OF conjunct2 [OF rej]]]]]
  note holed = fallback_absorbs_every_extraction_error
    [where r = holed_call and N = sample_numerics
       and e = "sample_env 2000" and doc = sample_doc and s = "the_manager sample_uploaded"]
  note h5 = conjunct1 [OF conjunct2 [OF conjunct2 [OF conjunct2 [OF conjunct2 [OF holed]]]]]
  let ?elements = "[Some \<lparr>rt_date = ''2024-05-01'', rt_amount = ''12.50'', rt_category = ''food'',
                    rt_description = ''Lunch'', rt_type = Expense\<rparr>, None]"
  let ?after = "processFile_resume sample_numerics (sample_env 2000) sample_doc holed_call
                    (the_manager sample_uploaded)"
  have h_ret: "returned holed_call = Inr (Payload sample_holed)"
    by (rule returned_holed_call)
  have h_valid: "isValidDocument sample_holed = True"
    by (simp add: sample_holed_def)
  have h_elements: "transactions sample_holed = Some ?elements"
    by (simp add: sample_holed_def)
  have h_len: "map_option length (transactions sample_holed) = Some 2"
    and h_null: "map_option (\<lambda>elements. elements ! 1) (transactions sample_holed) = Some None"
    and h_read: "map_option readings (transactions sample_holed) = Some 2"
    by (simp_all add: h_elements readings_def)
  have h_in: "None \<in> set ?elements"
    by simp
  have h_k: "readings ?elements = 2"
    by (simp add: readings_def)
  have h_all: "\<forall>f' \<in> set (uploadedFiles ?after).
         uf_id f' = uf_id sample_doc \<longrightarrow>
         status f' = Completed \<and>
         extractedTransactions f' = mockTransactions sample_numerics (later 2 (sample_env 2000)) \<and>
         aiAnalysis f' =
           Some (mockAnalysis sample_numerics sample_doc
                   (mockTransactions sample_numerics (later 2 (sample_env 2000))))"
    using h5 h_ret h_valid h_elements h_in unfolding h_k [symmetric] by blast
  have h_shape: "\<exists>f'. uploadedFiles ?after = [f'] \<and> uf_id f' = uf_id sample_doc \<and>
      f'\<lparr>status := Completed, extractedTransactions := [], aiAnalysis := None\<rparr> =
      sample_doc\<lparr>status := Completed, extractedTransactions := [], aiAnalysis := None\<rparr>"
    by (simp add: resume_files files_sample_uploaded entry_after_def h_ret h_valid h_elements
        mock_entry_def)
  have h_files: "uploadedFiles ?after =
     [sample_doc\<lparr>status := Completed,
                 extractedTransactions :=
                   mockTransactions sample_numerics (later 2 (sample_env 2000)),
                 aiAnalysis :=
                   Some (mockAnalysis sample_numerics sample_doc
                           (mockTransactions sample_numerics (later 2 (sample_env 2000))))\<rparr>]"
  proof -
    from h_shape obtain f' where one: "uploadedFiles ?after = [f']"
      and same': "uf_id f' = uf_id sample_doc"
      and rest: "f'\<lparr>status := Completed, extractedTransactions := [], aiAnalysis := None\<rparr> =
        sample_doc\<lparr>status := Completed, extractedTransactions := [], aiAnalysis := None\<rparr>"
      by blast
    have "f' \<in> set (uploadedFiles ?after)"
      by (simp add: one)
    from bspec [OF h_all this] same'
    have got: "status f' = Completed \<and>
         extractedTransactions f' = mockTransactions sample_numerics (later 2 (sample_env 2000)) \<and>
         aiAnalysis f' =
           Some (mockAnalysis sample_numerics sample_doc
                   (mockTransactions sample_numerics (later 2 (sample_env 2000))))"
      by simp
    have "f' = f'\<lparr>status := Completed, extractedTransactions := [], aiAnalysis := None\<rparr>
        \<lparr>extractedTransactions := mockTransactions sample_numerics (later 2 (sample_env 2000)),
         aiAnalysis := Some (mockAnalysis sample_numerics sample_doc
                   (mockTransactions sample_numerics (later 2 (sample_env 2000))))\<rparr>"
      using got by simp
    then show ?thesis
      unfolding one rest by simp
  qed
  have h_ids: "map tx_id (mockTransactions sample_numerics (later 2 (sample_env 2000))) =
     [''2002'', ''2004'']"
    by (simp add: mockTransactions_def later_def sample_env_def)
  have r_ret: "returned rejection_call = Inr (Payload sample_rejection)"
    by (rule returned_rejection_call)
  have r_invalid: "isValidDocument sample_rejection = False"
    by (simp add: sample_rejection_def)
  have "console (processFile_resume sample_numerics (sample_env 2000) sample_doc rejection_call
      (the_manager sample_uploaded)) \<noteq>
     console (the_manager sample_uploaded) @ logged rejection_call @ [''AI processing failed:'']"
    using r3 r_ret r_invalid by auto
  then have r_log: "console (processFile_resume sample_numerics (sample_env 2000) sample_doc
      rejection_call (the_manager sample_uploaded)) =
     console (the_manager sample_uploaded) @ logged rejection_call"
    using r6 by blast
  show ?thesis
    by (intro conjI h call kind log listed same conjunct1 [OF finished] conjunct2 [OF finished]
        n_ret n_log u_ret u_valid u_none u_log h_ret h_valid h_len h_null h_read h_files h_ids
        r_ret r_invalid r_log)
qed

subsection \<open>C4: the analysis of a rejected document\<close>

text \<open>
  Claim C4 says that the analysis of a rejected document equals the rejection reason the
  service returned, verbatim. The source builds the analysis with the template
  \<^verbatim>\<open>`Document rejected: ${result.rejectionReason || '...'}`\<close>.

  Claim C4, as amended. When the result of the extraction has
  \<^verbatim>\<open>isValidDocument = false\<close>, every listed document with the file's id gets status
  \<open>Error\<close> and the analysis 'Document rejected: ' followed by the rejection reason, or
  followed by a fixed sentence when the reason is missing or empty.
\<close>

theorem rejected_analysis_is_prefixed_reason:
  assumes "returned r = Inr (Payload result)" and "\<not> isValidDocument result"
  shows "\<forall>f' \<in> set (uploadedFiles (processFile_resume N e file r s)).
           uf_id f' = uf_id file \<longrightarrow>
           status f' = Error \<and>
           aiAnalysis f' = Some (''Document rejected: '' @
             (case rejectionReason result of
                None \<Rightarrow> ''This does not appear to be a valid receipt, bill, or financial document.''
              | Some reason \<Rightarrow>
                  if reason = []
                  then ''This does not appear to be a valid receipt, bill, or financial document.''
                  else reason))"
  using assms
  by (auto simp: resume_files entry_after_rejected rejection_analysis_def falsy_def template_def
      split: option.splits)

text \<open>
  Claim C4 as stated fails: for the reason 'not a financial document' the stored analysis
  is 'Document rejected: not a financial document'.
\<close>

theorem rejection_reason_verbatim_counterexample:
  "rejectionReason sample_rejection = Some ''not a financial document'' \<and>
   isValidDocument sample_rejection = False \<and>
   run sample_numerics
     [FileRead (sample_env 1000) sample_file,
      ExtractionSettled sample_doc rejection_call (sample_env 2000)]
     (initial_world []) = Some sample_rejected \<and>
   map aiAnalysis (uploadedFiles (the_manager sample_rejected)) =
     [Some ''Document rejected: not a financial document'']"
  by (simp add: sample_defs)

text \<open>The amended claim C4 at the same input.\<close>

theorem rejected_analysis_is_prefixed_reason_witness:
  "returned rejection_call = Inr (Payload sample_rejection) \<and>
   isValidDocument sample_rejection = False \<and>
   rejectionReason sample_rejection = Some ''not a financial document'' \<and>
   sample_rejected_doc \<in> set (uploadedFiles (processFile_resume sample_numerics (sample_env 2000)
      sample_doc rejection_call (the_manager sample_uploaded))) \<and>
   uf_id sample_rejected_doc = uf_id sample_doc \<and>
   status sample_rejected_doc = Error \<and>
   aiAnalysis sample_rejected_doc = Some (''Document rejected: '' @ ''not a financial document'')"
proof -
  have h1: "returned rejection_call = Inr (Payload sample_rejection)"
    by (rule returned_rejection_call)
  have h2: "\<not> isValidDocument sample_rejection"
    by (simp add: sample_rejection_def)
  have reason: "rejectionReason sample_rejection = Some ''not a financial document''"
    by (simp add: sample_rejection_def)
  have listed: "sample_rejected_doc \<in> set (uploadedFiles (processFile_resume sample_numerics
      (sample_env 2000) sample_doc rejection_call (the_manager sample_uploaded)))"
    using files_sample_rejected by (simp add: sample_rejected_def)
  have same: "uf_id sample_rejected_doc = uf_id sample_doc"
    by (simp add: sample_rejected_doc_def)
  note fact = rejected_analysis_is_prefixed_reason [OF h1 h2, of sample_numerics "sample_env 2000"
        sample_doc "the_manager sample_uploaded"]
  have "status sample_rejected_doc = Error \<and>
     aiAnalysis sample_rejected_doc = Some (''Document rejected: '' @ ''not a financial document'')"
    using bspec [OF fact listed] same by (simp add: reason)
  then show ?thesis using h1 h2 reason listed same by simp
qed

subsection \<open>C5: the chat request carries the last 50 transactions\<close>

text \<open>
  Claim C5. For a ledger of more than 50 transactions handed to a chat call, the summary
  sent as system context holds exactly the 50 most recent ones by position, each rendered
  with its date, signed amount, description and category. With a credential configured,
  the one request sent has as its second message a system message whose text is the
  header, the lines of a window joined by newlines, and the footer; the window has length
  50 and its \<open>i\<close>-th element is the element of the ledger at position
  \<open>length - 50 + i\<close>.
\<close>

theorem chat_summary_holds_last_50:
  assumes "\<not> falsy OPENAI_API_KEY" and "length ts > 50"
  shows "sent (chatAboutReceipt N fetch OPENAI_API_KEY msg imageData context (Some ts)) =
           [chat_request N OPENAI_API_KEY msg imageData context (Some ts)] \<and>
         (\<exists>window. length window = 50 \<and>
            (\<forall>i < 50. window ! i = ts ! (length ts - 50 + i)) \<and>
            messages (chat_request N OPENAI_API_KEY msg imageData context (Some ts)) ! 1 =
              \<lparr>msg_role = System,
               msg_content = Text
                 (''Here is the user's recent transaction history for context:'' @ newline @
                  join newline
                    (map (\<lambda>t. tx_date t @ '': '' @ (if tx_type t = Income then ''+'' else ''-'') @
                              ''$'' @ toString N (tx_amount t) @ '' - '' @ tx_description t @
                              '' ('' @ tx_category t @ '')'')
                         window) @
                  newline @ newline @
                  ''Use this information to provide personalized insights and answer questions about their spending patterns, budgets, and financial habits.'')\<rparr>)"
proof -
  have sent: "sent (chatAboutReceipt N fetch OPENAI_API_KEY msg imageData context (Some ts)) =
           [chat_request N OPENAI_API_KEY msg imageData context (Some ts)]"
    using assms(1) by (simp add: chatAboutReceipt_def Let_def)
  have len: "length (slice_neg 50 ts) = 50"
    using assms(2) by (simp add: slice_neg_length)
  have nth: "\<forall>i < 50. slice_neg 50 ts ! i = ts ! (length ts - 50 + i)"
    using assms(2) by (simp add: slice_neg_nth)
  have line: "summary_line N = (\<lambda>t. tx_date t @ '': '' @ (if tx_type t = Income then ''+'' else ''-'') @
                              ''$'' @ toString N (tx_amount t) @ '' - '' @ tx_description t @
                              '' ('' @ tx_category t @ '')'')"
    by (simp add: summary_line_def fun_eq_iff)
  have second: "messages (chat_request N OPENAI_API_KEY msg imageData context (Some ts)) ! 1 =
      history_message N ts"
  proof -
    have "ts \<noteq> []" using assms(2) by auto
    then show ?thesis by (simp add: chat_request_def chat_messages_def)
  qed
  have msg: "messages (chat_request N OPENAI_API_KEY msg imageData context (Some ts)) ! 1 =
              \<lparr>msg_role = System,
               msg_content = Text
                 (''Here is the user's recent transaction history for context:'' @ newline @
                  join newline
                    (map (\<lambda>t. tx_date t @ '': '' @ (if tx_type t = Income then ''+'' else ''-'') @
                              ''$'' @ toString N (tx_amount t) @ '' - '' @ tx_description t @
                              '' ('' @ tx_category t @ '')'')
                         (slice_neg 50 ts)) @
                  newline @ newline @
                  ''Use this information to provide personalized insights and answer questions about their spending patterns, budgets, and financial habits.'')\<rparr>"
    unfolding second history_message_def transactionSummary_def line by (rule refl)
  show ?thesis using sent len nth msg by blast
qed

text \<open>The theorem at a concrete input.\<close>

theorem chat_summary_holds_last_50_witness:
  "\<not> falsy sample_key \<and>
   length (sample_ledger 60) = 60 \<and>
   sent (chatAboutReceipt sample_numerics offline sample_key ''How much did I spend?''
           None None (Some (sample_ledger 60))) =
     [chat_request sample_numerics sample_key ''How much did I spend?'' None None
        (Some (sample_ledger 60))] \<and>
   (\<exists>window. length window = 50 \<and>
      (\<forall>i < 50. window ! i = sample_ledger 60 ! (length (sample_ledger 60) - 50 + i)) \<and>
      messages (chat_request sample_numerics sample_key ''How much did I spend?'' None None
                  (Some (sample_ledger 60))) ! 1 =
        \<lparr>msg_role = System,
         msg_content = Text
           (''Here is the user's recent transaction history for context:'' @ newline @
            join newline
              (map (\<lambda>t. tx_date t @ '': '' @ (if tx_type t = Income then ''+'' else ''-'') @
                        ''$'' @ toString sample_numerics (tx_amount t) @ '' - '' @
                        tx_description t @ '' ('' @ tx_category t @ '')'')
                   window) @
            newline @ newline @
            ''Use this information to provide personalized insights and answer questions about their spending patterns, budgets, and financial habits.'')\<rparr>)"
proof -
  have h1: "\<not> falsy sample_key"
    by (simp add: falsy_def sample_key_def)
  have len: "length (sample_ledger 60) = 60"
    by (simp add: sample_ledger_def)
  have h2: "length (sample_ledger 60) > 50"
    by (simp add: len)
  note fact = chat_summary_holds_last_50 [OF h1 h2, of sample_numerics offline
        "''How much did I spend?''" None None]
  show ?thesis
    by (intro conjI h1 len conjunct1 [OF fact] conjunct2 [OF fact])
qed

subsection \<open>C6: the insight request carries the last 20 transactions\<close>

text \<open>
  Claim C6. For a ledger of more than 20 transactions handed to the insight synthesizer,
  the request holds exactly the 20 most recent ones, serialized as JSON. With a credential
  configured, the one request sent has as its second message the user message whose text
  ends with \<^verbatim>\<open>JSON.stringify\<close> of a window of length 20, the \<open>i\<close>-th element of which
  is the element of the ledger at position \<open>length - 20 + i\<close>.
\<close>

theorem insights_request_holds_last_20:
  assumes "\<not> falsy OPENAI_API_KEY" and "length ts > 20"
  shows "sent (generateFinancialInsights JSON_stringify JSON_parse fetch OPENAI_API_KEY ts) =
           [insights_request JSON_stringify OPENAI_API_KEY ts] \<and>
         (\<exists>window. length window = 20 \<and>
            (\<forall>i < 20. window ! i = ts ! (length ts - 20 + i)) \<and>
            messages (insights_request JSON_stringify OPENAI_API_KEY ts) ! 1 =
              \<lparr>msg_role = User,
               msg_content = Text (''Analyze these transactions and provide insights: '' @
                                   JSON_stringify window)\<rparr>)"
proof -
  have sent: "sent (generateFinancialInsights JSON_stringify JSON_parse fetch OPENAI_API_KEY ts) =
           [insights_request JSON_stringify OPENAI_API_KEY ts]"
    using assms by (auto simp: generateFinancialInsights_def Let_def split: sum.splits)
  have len: "length (slice_neg 20 ts) = 20"
    using assms(2) by (simp add: slice_neg_length)
  have nth: "\<forall>i < 20. slice_neg 20 ts ! i = ts ! (length ts - 20 + i)"
    using assms(2) by (simp add: slice_neg_nth)
  have msg: "messages (insights_request JSON_stringify OPENAI_API_KEY ts) ! 1 =
              \<lparr>msg_role = User,
               msg_content = Text (''Analyze these transactions and provide insights: '' @
                                   JSON_stringify (slice_neg 20 ts))\<rparr>"
    by (simp add: insights_request_def)
  show ?thesis using sent len nth msg by blast
qed

text \<open>The theorem at a concrete input.\<close>

theorem insights_request_holds_last_20_witness:
  "\<not> falsy sample_key \<and>
   length (sample_ledger 25) = 25 \<and>
   sent (generateFinancialInsights sample_stringify parse_numbers answers_numbers
           sample_key (sample_ledger 25)) =
     [insights_request sample_stringify sample_key (sample_ledger 25)] \<and>
   (\<exists>window. length window = 20 \<and>
      (\<forall>i < 20. window ! i = sample_ledger 25 ! (length (sample_ledger 25) - 20 + i)) \<and>
      messages (insights_request sample_stringify sample_key (sample_ledger 25)) ! 1 =
        \<lparr>msg_role = User,
         msg_content = Text (''Analyze these transactions and provide insights: '' @
                             sample_stringify window)\<rparr>)"
proof -
  have h1: "\<not> falsy sample_key"
    by (simp add: falsy_def sample_key_def)
  have len: "length (sample_ledger 25) = 25"
    by (simp add: sample_ledger_def)
  have h2: "length (sample_ledger 25) > 20"
    by (simp add: len)
  note fact = insights_request_holds_last_20 [OF h1 h2, of sample_stringify parse_numbers
        answers_numbers]
  show ?thesis
    by (intro conjI h1 len conjunct1 [OF fact] conjunct2 [OF fact])
qed

subsection \<open>C7: insights degrade to the empty list\<close>

text \<open>
  Claim C7 says that \<open>generateFinancialInsights\<close> returns the empty list, and never
  raises, when no credential is configured, when the list of transactions is empty (no
  network call in both cases), or when the response cannot be parsed as a JSON array of
  strings. The source tests \<^verbatim>\<open>Array.isArray\<close> only, and returns an array as it is.

  Claim C7, as amended. The function never raises (its result is a list in every case). It
  returns the empty list without a network call when no credential is configured or the
  list of transactions is empty; it returns the empty list when the content of the
  response is not JSON or is JSON but not an array, and when the call or the decoding
  throws. With a credential and a transaction, a response whose content is a text that is
  not empty and that \<^verbatim>\<open>JSON.parse\<close> reads as an array makes the function return that
  array as it is, whatever its elements are, after one request and with nothing logged;
  and a result that is not empty arises in no other way.
\<close>

theorem insights_degrade_to_empty_list:
  "(falsy OPENAI_API_KEY \<or> ts = [] \<longrightarrow>
      generateFinancialInsights JSON_stringify JSON_parse fetch OPENAI_API_KEY ts =
        \<lparr>sent = [], logged = [], returned = []\<rparr>) \<and>
   (\<forall>st txt content cs.
      fetch (insights_request JSON_stringify OPENAI_API_KEY ts) =
        Response True st txt (Data (Some content # cs)) \<and>
      (JSON_parse content = None \<or>
       (\<exists>v. JSON_parse content = Some v \<and> (\<forall>xs. v \<noteq> JArr xs))) \<longrightarrow>
      returned (generateFinancialInsights JSON_stringify JSON_parse fetch OPENAI_API_KEY ts) = []) \<and>
   (\<forall>err. insights_try JSON_parse (fetch (insights_request JSON_stringify OPENAI_API_KEY ts)) = Inl err
      \<longrightarrow> returned (generateFinancialInsights JSON_stringify JSON_parse fetch OPENAI_API_KEY ts) = []) \<and>
   (\<forall>st txt content cs xs.
      \<not> falsy OPENAI_API_KEY \<and> ts \<noteq> [] \<and>
      fetch (insights_request JSON_stringify OPENAI_API_KEY ts) =
        Response True st txt (Data (Some content # cs)) \<and>
      content \<noteq> [] \<and> JSON_parse content = Some (JArr xs) \<longrightarrow>
      generateFinancialInsights JSON_stringify JSON_parse fetch OPENAI_API_KEY ts =
        \<lparr>sent = [insights_request JSON_stringify OPENAI_API_KEY ts], logged = [],
         returned = xs\<rparr>) \<and>
   (returned (generateFinancialInsights JSON_stringify JSON_parse fetch OPENAI_API_KEY ts) = [] \<or>
    (\<exists>st txt content cs.
       \<not> falsy OPENAI_API_KEY \<and> ts \<noteq> [] \<and>
       fetch (insights_request JSON_stringify OPENAI_API_KEY ts) =
         Response True st txt (Data (Some content # cs)) \<and>
       content \<noteq> [] \<and>
       JSON_parse content =
         Some (JArr (returned (generateFinancialInsights JSON_stringify JSON_parse fetch
                                 OPENAI_API_KEY ts)))))"
proof -
  let ?g = "generateFinancialInsights JSON_stringify JSON_parse fetch OPENAI_API_KEY ts"
  let ?req = "insights_request JSON_stringify OPENAI_API_KEY ts"
  have nocall: "falsy OPENAI_API_KEY \<or> ts = [] \<longrightarrow> ?g = \<lparr>sent = [], logged = [], returned = []\<rparr>"
    by (auto simp: generateFinancialInsights_def)
  have unparsed: "\<forall>st txt content cs.
      fetch ?req = Response True st txt (Data (Some content # cs)) \<and>
      (JSON_parse content = None \<or>
       (\<exists>v. JSON_parse content = Some v \<and> (\<forall>xs. v \<noteq> JArr xs))) \<longrightarrow>
      returned ?g = []"
    by (auto simp: generateFinancialInsights_def Let_def insights_try_def first_content_def
        split: json.splits)
  have thrown: "\<forall>err. insights_try JSON_parse (fetch ?req) = Inl err \<longrightarrow> returned ?g = []"
    by (auto simp: generateFinancialInsights_def Let_def)
  have as_it_is: "\<forall>st txt content cs xs.
      \<not> falsy OPENAI_API_KEY \<and> ts \<noteq> [] \<and>
      fetch ?req = Response True st txt (Data (Some content # cs)) \<and>
      content \<noteq> [] \<and> JSON_parse content = Some (JArr xs) \<longrightarrow>
      ?g = \<lparr>sent = [?req], logged = [], returned = xs\<rparr>"
    by (simp add: generateFinancialInsights_def Let_def insights_try_def first_content_def)
  have shape: "returned ?g = [] \<or>
    (\<exists>st txt content cs.
       \<not> falsy OPENAI_API_KEY \<and> ts \<noteq> [] \<and>
       fetch ?req = Response True st txt (Data (Some content # cs)) \<and>
       content \<noteq> [] \<and> JSON_parse content = Some (JArr (returned ?g)))"
  proof (cases "falsy OPENAI_API_KEY \<or> ts = []")
    case True
    then show ?thesis using nocall by simp
  next
    case False
    show ?thesis
    proof (cases "insights_try JSON_parse (fetch ?req)")
      case (Inl err)
      then show ?thesis using thrown by simp
    next
      case (Inr xs)
      then have "returned ?g = xs"
        using False by (simp add: generateFinancialInsights_def Let_def)
      then show ?thesis using insights_try_cases [OF Inr] False by auto
    qed
  qed
  show ?thesis
    by (intro conjI nocall unparsed thrown as_it_is shape)
qed

text \<open>
  Claim C7 as stated fails: the answer \<^verbatim>\<open>[1]\<close> is not an array of strings, and it is
  returned.
\<close>

theorem insights_not_strings_counterexample:
  "parse_numbers ''[1]'' = Some (JArr [JNum ''1'']) \<and>
   is_string_array (JArr [JNum ''1'']) = False \<and>
   generateFinancialInsights sample_stringify parse_numbers answers_numbers sample_key
     (sample_ledger 5) =
   \<lparr>sent = [insights_request sample_stringify sample_key (sample_ledger 5)],
    logged = [], returned = [JNum ''1'']\<rparr>"
  by (simp add: parse_numbers_def answers_numbers_def generateFinancialInsights_def Let_def
      insights_try_def first_content_def falsy_def sample_ledger_def sample_key_def)

text \<open>
  The amended claim C7 with no credential, with no transaction, with an answer that is not
  JSON, with one that is JSON and no array, and with one that is an array.
\<close>

theorem insights_degrade_to_empty_list_witness:
  "falsy None \<and>
   generateFinancialInsights sample_stringify parse_numbers answers_numbers None (sample_ledger 5) =
     \<lparr>sent = [], logged = [], returned = []\<rparr> \<and>
   answers_prose (insights_request sample_stringify sample_key (sample_ledger 5)) =
     Response True 200 [] (Data [Some ''Spend less on lunch.'']) \<and>
   parse_numbers ''Spend less on lunch.'' = None \<and>
   returned (generateFinancialInsights sample_stringify parse_numbers answers_prose
               sample_key (sample_ledger 5)) = [] \<and>
   generateFinancialInsights sample_stringify parse_numbers answers_numbers sample_key [] =
     \<lparr>sent = [], logged = [], returned = []\<rparr> \<and>
   answers_object (insights_request sample_stringify sample_key (sample_ledger 5)) =
     Response True 200 [] (Data [Some ''{}'']) \<and>
   parse_numbers ''{}'' = Some (JObj []) \<and>
   returned (generateFinancialInsights sample_stringify parse_numbers answers_object
               sample_key (sample_ledger 5)) = [] \<and>
   falsy sample_key = False \<and>
   length (sample_ledger 5) = 5 \<and>
   answers_numbers (insights_request sample_stringify sample_key (sample_ledger 5)) =
     Response True 200 [] (Data [Some ''[1]'']) \<and>
   parse_numbers ''[1]'' = Some (JArr [JNum ''1'']) \<and>
   generateFinancialInsights sample_stringify parse_numbers answers_numbers sample_key
     (sample_ledger 5) =
     \<lparr>sent = [insights_request sample_stringify sample_key (sample_ledger 5)], logged = [],
      returned = [JNum ''1'']\<rparr>"
proof -
  have key: "falsy sample_key = False"
    by (simp add: falsy_def sample_key_def)
  have five: "length (sample_ledger 5) = 5"
    by (simp add: sample_ledger_def)
  have some: "sample_ledger 5 \<noteq> []"
    using five by auto
  have answer3: "answers_numbers (insights_request sample_stringify sample_key (sample_ledger 5)) =
     Response True 200 [] (Data [Some ''[1]''])"
    by (simp add: answers_numbers_def)
  have parsed3: "parse_numbers ''[1]'' = Some (JArr [JNum ''1''])"
    by (simp add: parse_numbers_def)
  have text3: "''[1]'' \<noteq> []"
    by simp
  note fact3 = insights_degrade_to_empty_list
      [where OPENAI_API_KEY = sample_key and ts = "sample_ledger 5"
         and JSON_stringify = sample_stringify and JSON_parse = parse_numbers
         and fetch = answers_numbers]
  note as_it_is = conjunct1 [OF conjunct2 [OF conjunct2 [OF conjunct2 [OF fact3]]]]
  have array: "generateFinancialInsights sample_stringify parse_numbers answers_numbers sample_key
     (sample_ledger 5) =
     \<lparr>sent = [insights_request sample_stringify sample_key (sample_ledger 5)], logged = [],
      returned = [JNum ''1'']\<rparr>"
    using as_it_is key some answer3 parsed3 text3 by blast
  have noledger: "generateFinancialInsights sample_stringify parse_numbers answers_numbers
      sample_key [] = \<lparr>sent = [], logged = [], returned = []\<rparr>"
    using insights_degrade_to_empty_list
      [where OPENAI_API_KEY = sample_key and ts = "[]" and JSON_stringify = sample_stringify
         and JSON_parse = parse_numbers and fetch = answers_numbers]
    by blast
  have answer2: "answers_object (insights_request sample_stringify sample_key (sample_ledger 5)) =
     Response True 200 [] (Data [Some ''{}''])"
    by (simp add: answers_object_def)
  have parsed2: "parse_numbers ''{}'' = Some (JObj [])"
    by (simp add: parse_numbers_def)
  have notarray: "\<exists>v. parse_numbers ''{}'' = Some v \<and> (\<forall>xs. v \<noteq> JArr xs)"
    by (simp add: parsed2)
  have empty2: "returned (generateFinancialInsights sample_stringify parse_numbers answers_object
               sample_key (sample_ledger 5)) = []"
    using insights_degrade_to_empty_list
      [where OPENAI_API_KEY = sample_key and ts = "sample_ledger 5"
         and JSON_stringify = sample_stringify and JSON_parse = parse_numbers
         and fetch = answers_object] answer2 notarray
    by blast
  have h: "falsy None"
    by (simp add: falsy_def)
  have nocall: "generateFinancialInsights sample_stringify parse_numbers answers_numbers None
      (sample_ledger 5) = \<lparr>sent = [], logged = [], returned = []\<rparr>"
    using insights_degrade_to_empty_list
      [where OPENAI_API_KEY = None and ts = "sample_ledger 5" and JSON_stringify = sample_stringify
         and JSON_parse = parse_numbers and fetch = answers_numbers] h
    by blast
  have answer: "answers_prose (insights_request sample_stringify sample_key (sample_ledger 5)) =
     Response True 200 [] (Data [Some ''Spend less on lunch.''])"
    by (simp add: answers_prose_def)
  have unparsed: "parse_numbers ''Spend less on lunch.'' = None"
    by (simp add: parse_numbers_def)
  have empty: "returned (generateFinancialInsights sample_stringify parse_numbers answers_prose
               sample_key (sample_ledger 5)) = []"
    using insights_degrade_to_empty_list
      [where OPENAI_API_KEY = sample_key and ts = "sample_ledger 5"
         and JSON_stringify = sample_stringify and JSON_parse = parse_numbers
         and fetch = answers_prose] answer unparsed
    by blast
  show ?thesis
    by (intro conjI h nocall answer unparsed empty noledger answer2 parsed2 empty2
        key five answer3 parsed3 array)
qed

subsection \<open>C8: merging twice duplicates\<close>

text \<open>
  Claim C8. Merging a document into the ledger is not idempotent: merging twice appends
  the document's \<^verbatim>\<open>extractedTransactions\<close> twice, and the document keeps its own list
  (the transactions are copied, not moved). When the \<^verbatim>\<open>Add to Tracker\<close> button of a
  listed file can be clicked once, it can be clicked again; the ledger then ends with two
  copies of the file's transactions, the component's state (the file included) is as
  before, and the second click has changed the ledger again.
\<close>

theorem merge_twice_duplicates:
  assumes "fire N (AddToTrackerClicked f) w = Some w1"
  shows "\<exists>w2. fire N (AddToTrackerClicked f) w1 = Some w2 \<and>
           app_transactions (the_app w1) = app_transactions (the_app w) @ extractedTransactions f \<and>
           app_transactions (the_app w2) =
             app_transactions (the_app w) @ extractedTransactions f @ extractedTransactions f \<and>
           the_manager w2 = the_manager w \<and>
           f \<in> set (uploadedFiles (the_manager w2)) \<and>
           w2 \<noteq> w1"
proof -
  from assms have listed: "f \<in> set (uploadedFiles (the_manager w))"
    and nonempty: "extractedTransactions f \<noteq> []"
    and w1: "w1 = w\<lparr>the_app := handleAddTransactions (extractedTransactions f) (the_app w)\<rparr>"
    by (auto simp: addTransactionsToTracker_def split: if_splits)
  define w2 where "w2 = w1\<lparr>the_app := handleAddTransactions (extractedTransactions f) (the_app w1)\<rparr>"
  have fired: "fire N (AddToTrackerClicked f) w1 = Some w2"
    using listed nonempty by (simp add: w1 w2_def addTransactionsToTracker_def)
  have once: "app_transactions (the_app w1) = app_transactions (the_app w) @ extractedTransactions f"
    by (simp add: w1 handleAddTransactions_def)
  have twice: "app_transactions (the_app w2) =
      app_transactions (the_app w) @ extractedTransactions f @ extractedTransactions f"
    by (simp add: w1 w2_def handleAddTransactions_def)
  have "app_transactions (the_app w2) \<noteq> app_transactions (the_app w1)"
    using nonempty by (simp add: once twice)
  then have differ: "w2 \<noteq> w1"
    by auto
  have same: "the_manager w2 = the_manager w"
    by (simp add: w1 w2_def)
  show ?thesis
    using fired once twice same listed differ by simp
qed

text \<open>The theorem at a concrete input.\<close>

theorem merge_twice_duplicates_witness:
  "fire sample_numerics (AddToTrackerClicked sample_completed_doc) sample_completed =
     Some sample_merged \<and>
   (\<exists>w2. fire sample_numerics (AddToTrackerClicked sample_completed_doc) sample_merged = Some w2 \<and>
         app_transactions (the_app w2) =
           app_transactions (the_app sample_completed) @
           extractedTransactions sample_completed_doc @ extractedTransactions sample_completed_doc \<and>
         the_manager w2 = the_manager sample_completed \<and>
         sample_completed_doc \<in> set (uploadedFiles (the_manager w2))) \<and>
   length (extractedTransactions sample_completed_doc) = 2"
proof -
  have two: "length (extractedTransactions sample_completed_doc) = 2"
    by (simp add: sample_completed_doc_def mockTransactions_def)
  have h: "fire sample_numerics (AddToTrackerClicked sample_completed_doc) sample_completed =
     Some sample_merged"
    using two by (simp add: files_sample_completed addTransactionsToTracker_def sample_merged_def)
  from merge_twice_duplicates [OF h] obtain w2 where
    "fire sample_numerics (AddToTrackerClicked sample_completed_doc) sample_merged = Some w2"
    "app_transactions (the_app w2) =
       app_transactions (the_app sample_completed) @
       extractedTransactions sample_completed_doc @ extractedTransactions sample_completed_doc"
    "the_manager w2 = the_manager sample_completed"
    "sample_completed_doc \<in> set (uploadedFiles (the_manager w2))"
    by (elim exE conjE)
  then have "\<exists>w2. fire sample_numerics (AddToTrackerClicked sample_completed_doc) sample_merged = Some w2 \<and>
         app_transactions (the_app w2) =
           app_transactions (the_app sample_completed) @
           extractedTransactions sample_completed_doc @ extractedTransactions sample_completed_doc \<and>
         the_manager w2 = the_manager sample_completed \<and>
         sample_completed_doc \<in> set (uploadedFiles (the_manager w2))"
    by (intro exI conjI)
  then show ?thesis using h two by (intro conjI)
qed

subsection \<open>C9: the status leaves \<open>Processing\<close> once and for good\<close>

text \<open>
  Claim C9. A document starts in status processing on upload; the extraction step changes
  it at most once, to completed or rejected; afterwards it never returns to processing
  and never moves between completed and rejected. For a document \<open>f\<close> listed in a
  reachable state: an upload lists a new document in status \<open>Processing\<close>; if one event
  changes the record with \<open>f\<close>'s id, then \<open>f\<close> was processing, the event is the
  settling of its own extraction, and the new status is \<open>Completed\<close> or \<open>Error\<close>; and
  whenever, after any number of events, the record with \<open>f\<close>'s id differs from \<open>f\<close>,
  then \<open>f\<close> was still processing. So a record that is completed or rejected stays as
  it is until it is deleted.
\<close>

theorem status_leaves_processing_once:
  assumes "run N evs (initial_world ledger) = Some w"
    and "f \<in> set (uploadedFiles (the_manager w))"
  shows "(\<forall>e fl w0 w1. fire N (FileRead e fl) w0 = Some w1 \<longrightarrow>
            (\<exists>nf \<in> set (uploadedFiles (the_manager w1)).
               nf = newFile e fl \<and> status nf = Processing)) \<and>
         (\<forall>ev w1 f1. fire N ev w = Some w1 \<and> f1 \<in> set (uploadedFiles (the_manager w1)) \<and>
            uf_id f1 = uf_id f \<and> f1 \<noteq> f \<longrightarrow>
            status f = Processing \<and> (status f1 = Completed \<or> status f1 = Error) \<and>
            (\<exists>t r e. ev = ExtractionSettled t r e \<and> uf_id t = uf_id f)) \<and>
         (\<forall>evs' w' f'. run N evs' w = Some w' \<and> f' \<in> set (uploadedFiles (the_manager w')) \<and>
            uf_id f' = uf_id f \<and> f' \<noteq> f \<longrightarrow>
            status f = Processing \<and> (status f' = Completed \<or> status f' = Error))"
proof -
  have c: "consistent w"
    using consistent_run [OF consistent_initial assms(1)] .
  have f: "f \<in> set (files w)"
    using assms(2) by (simp add: files_def)
  have terminal: "\<And>g. status g \<noteq> Processing \<Longrightarrow> status g = Completed \<or> status g = Error"
    by (metis file_status.exhaust)
  have created: "\<forall>e fl w0 w1. fire N (FileRead e fl) (w0 :: 'a world) = Some w1 \<longrightarrow>
            (\<exists>nf \<in> set (uploadedFiles (the_manager w1)).
               nf = newFile e fl \<and> status nf = Processing)"
    by (auto split: if_splits)
  have step: "\<forall>ev w1 f1. fire N ev w = Some w1 \<and> f1 \<in> set (uploadedFiles (the_manager w1)) \<and>
            uf_id f1 = uf_id f \<and> f1 \<noteq> f \<longrightarrow>
            status f = Processing \<and> (status f1 = Completed \<or> status f1 = Error) \<and>
            (\<exists>t r e. ev = ExtractionSettled t r e \<and> uf_id t = uf_id f)"
  proof (intro allI impI, elim conjE)
    fix ev w1 f1
    assume st: "fire N ev w = Some w1" and f1: "f1 \<in> set (uploadedFiles (the_manager w1))"
      and same: "uf_id f1 = uf_id f" and changed: "f1 \<noteq> f"
    have "f1 \<in> set (files w1)" using f1 by (simp add: files_def)
    from step_frozen [OF c st f this same] changed
    show "status f = Processing \<and> (status f1 = Completed \<or> status f1 = Error) \<and>
            (\<exists>t r e. ev = ExtractionSettled t r e \<and> uf_id t = uf_id f)"
      using terminal by blast
  qed
  have later: "\<forall>evs' w' f'. run N evs' w = Some w' \<and> f' \<in> set (uploadedFiles (the_manager w')) \<and>
            uf_id f' = uf_id f \<and> f' \<noteq> f \<longrightarrow>
            status f = Processing \<and> (status f' = Completed \<or> status f' = Error)"
  proof (intro allI impI, elim conjE)
    fix evs' w' f'
    assume rn: "run N evs' w = Some w'" and f': "f' \<in> set (uploadedFiles (the_manager w'))"
      and same: "uf_id f' = uf_id f" and changed: "f' \<noteq> f"
    have "f' \<in> set (files w')" using f' by (simp add: files_def)
    from run_frozen [OF c rn f this same] changed
    show "status f = Processing \<and> (status f' = Completed \<or> status f' = Error)"
      using terminal by blast
  qed
  show ?thesis using created step later by blast
qed

text \<open>The theorem at a concrete input.\<close>

theorem status_leaves_processing_once_witness:
  "run sample_numerics [FileRead (sample_env 1000) sample_file] (initial_world []) =
     Some sample_uploaded \<and>
   sample_doc \<in> set (uploadedFiles (the_manager sample_uploaded)) \<and>
   fire sample_numerics
     (ExtractionSettled sample_doc rejection_call (sample_env 2000))
     sample_uploaded = Some sample_rejected \<and>
   sample_rejected_doc \<in> set (uploadedFiles (the_manager sample_rejected)) \<and>
   uf_id sample_rejected_doc = uf_id sample_doc \<and>
   sample_rejected_doc \<noteq> sample_doc \<and>
   status sample_doc = Processing \<and>
   (status sample_rejected_doc = Completed \<or> status sample_rejected_doc = Error) \<and>
   run sample_numerics
     [ExtractionSettled sample_doc rejection_call (sample_env 2000), DeleteClicked ''none'']
     sample_uploaded = Some sample_rejected \<and>
   fire sample_numerics (FileRead (sample_env 1000) sample_file) (initial_world []) =
     Some sample_uploaded \<and>
   (\<exists>nf \<in> set (uploadedFiles (the_manager sample_uploaded)).
      nf = newFile (sample_env 1000) sample_file \<and> status nf = Processing)"
proof -
  have later: "run sample_numerics
     [ExtractionSettled sample_doc rejection_call (sample_env 2000), DeleteClicked ''none'']
     sample_uploaded = Some sample_rejected"
    by (simp add: fire_sample_rejected deleteFile_def files_sample_rejected)
      (simp add: sample_defs)
  have upload: "fire sample_numerics (FileRead (sample_env 1000) sample_file) (initial_world []) =
     Some sample_uploaded"
    by (simp add: sample_defs)
  have h1: "run sample_numerics [FileRead (sample_env 1000) sample_file] (initial_world []) =
     Some sample_uploaded"
    by (rule run_sample_uploaded)
  have h2: "sample_doc \<in> set (uploadedFiles (the_manager sample_uploaded))"
    by (simp add: files_sample_uploaded)
  have st: "fire sample_numerics
     (ExtractionSettled sample_doc rejection_call (sample_env 2000))
     sample_uploaded = Some sample_rejected"
    by (rule fire_sample_rejected)
  have listed: "sample_rejected_doc \<in> set (uploadedFiles (the_manager sample_rejected))"
    by (simp add: files_sample_rejected)
  have same: "uf_id sample_rejected_doc = uf_id sample_doc"
    by (simp add: sample_rejected_doc_def)
  have changed: "sample_rejected_doc \<noteq> sample_doc"
  proof
    assume "sample_rejected_doc = sample_doc"
    then have "status sample_rejected_doc = status sample_doc" by simp
    then show False by (simp add: sample_rejected_doc_def sample_doc_def)
  qed
  have "status sample_doc = Processing \<and>
     (status sample_rejected_doc = Completed \<or> status sample_rejected_doc = Error)"
    using status_leaves_processing_once [OF h1 h2] st listed same changed by blast
  then have step: "status sample_doc = Processing"
    "status sample_rejected_doc = Completed \<or> status sample_rejected_doc = Error"
    by simp_all
  note fact = status_leaves_processing_once [OF h1 h2]
  have afterwards: "status sample_doc = Processing \<and>
     (status sample_rejected_doc = Completed \<or> status sample_rejected_doc = Error)"
    using conjunct2 [OF conjunct2 [OF fact]] later listed same changed by blast
  have created: "\<exists>nf \<in> set (uploadedFiles (the_manager sample_uploaded)).
      nf = newFile (sample_env 1000) sample_file \<and> status nf = Processing"
    using conjunct1 [OF fact] upload by blast
  show ?thesis
    by (intro conjI h1 h2 st listed same changed step later upload created)
qed

subsection \<open>C10: a late result writes to no other document\<close>

text \<open>
  Claim C10. The per-id update of \<open>processFile\<close> writes only to the entries whose id
  matches: on a list without that id it changes nothing, so the result of an extraction
  that settles after its document was deleted is discarded and the document is not
  created again; every entry with another id is unchanged, at its position; and
  \<open>deleteFile\<close> clears the chat selection when it refers to the deleted document (and
  leaves it alone otherwise). The last part of the theorem is the race itself: a document
  is deleted while its extraction is in flight, any events follow, and the extraction
  settles; the list is then as it was just before, without the document.
\<close>

theorem late_result_after_delete_is_discarded:
  "(uf_id doc \<notin> uf_id ` set (uploadedFiles s) \<longrightarrow>
      uploadedFiles (processFile_resume N e doc r s) = uploadedFiles s) \<and>
   uploadedFiles (processFile_resume N e doc r (deleteFile (uf_id doc) s)) =
      uploadedFiles (deleteFile (uf_id doc) s) \<and>
   uf_id doc \<notin> uf_id ` set (uploadedFiles (processFile_resume N e doc r (deleteFile (uf_id doc) s))) \<and>
   length (uploadedFiles (processFile_resume N e doc r s)) = length (uploadedFiles s) \<and>
   (\<forall>i < length (uploadedFiles s). uf_id (uploadedFiles s ! i) \<noteq> uf_id doc \<longrightarrow>
      uploadedFiles (processFile_resume N e doc r s) ! i = uploadedFiles s ! i) \<and>
   (map_option uf_id (selectedFile s) = Some fileId_arg \<longrightarrow>
      selectedFile (deleteFile fileId_arg s) = None) \<and>
   (map_option uf_id (selectedFile s) \<noteq> Some fileId_arg \<longrightarrow>
      selectedFile (deleteFile fileId_arg s) = selectedFile s) \<and>
   (run N evs (initial_world ledger) = Some w \<and> doc \<in> set (extracting w) \<and>
    run N (DeleteClicked (uf_id doc) # evs') w = Some w1 \<and>
    fire N (ExtractionSettled doc r e) w1 = Some w2 \<longrightarrow>
      uploadedFiles (the_manager w2) = uploadedFiles (the_manager w1) \<and>
      uf_id doc \<notin> uf_id ` set (uploadedFiles (the_manager w2)))"
proof -
  have gone: "uf_id doc \<notin> uf_id ` set (uploadedFiles (deleteFile (uf_id doc) s))"
    by (auto simp: deleteFile_def Let_def)
  have c1: "uf_id doc \<notin> uf_id ` set (uploadedFiles s) \<longrightarrow>
      uploadedFiles (processFile_resume N e doc r s) = uploadedFiles s"
    by (simp add: resume_absent)
  have c2: "uploadedFiles (processFile_resume N e doc r (deleteFile (uf_id doc) s)) =
      uploadedFiles (deleteFile (uf_id doc) s)"
    using gone by (rule resume_absent)
  have c3: "uf_id doc \<notin> uf_id ` set (uploadedFiles (processFile_resume N e doc r
      (deleteFile (uf_id doc) s)))"
    unfolding c2 by (rule gone)
  have c4: "length (uploadedFiles (processFile_resume N e doc r s)) = length (uploadedFiles s)"
    using resume_ids by (metis length_map)
  have c5: "\<forall>i < length (uploadedFiles s). uf_id (uploadedFiles s ! i) \<noteq> uf_id doc \<longrightarrow>
      uploadedFiles (processFile_resume N e doc r s) ! i = uploadedFiles s ! i"
    by (simp add: resume_other)
  have c6: "map_option uf_id (selectedFile s) = Some fileId_arg \<longrightarrow>
      selectedFile (deleteFile fileId_arg s) = None"
    by (simp add: deleteFile_def Let_def)
  have c7: "map_option uf_id (selectedFile s) \<noteq> Some fileId_arg \<longrightarrow>
      selectedFile (deleteFile fileId_arg s) = selectedFile s"
    by (auto simp: deleteFile_def Let_def)
  have global: "run N evs (initial_world ledger) = Some w \<and> doc \<in> set (extracting w) \<and>
    run N (DeleteClicked (uf_id doc) # evs') w = Some w1 \<and>
    fire N (ExtractionSettled doc r e) w1 = Some w2 \<longrightarrow>
      uploadedFiles (the_manager w2) = uploadedFiles (the_manager w1) \<and>
      uf_id doc \<notin> uf_id ` set (uploadedFiles (the_manager w2))"
  proof (intro impI, elim conjE)
    assume reach: "run N evs (initial_world ledger) = Some w"
      and flight: "doc \<in> set (extracting w)"
      and later: "run N (DeleteClicked (uf_id doc) # evs') w = Some w1"
      and settle: "fire N (ExtractionSettled doc r e) w1 = Some w2"
    have away: "\<forall>f \<in> set (uploadedFiles (the_manager w1)). uf_id f \<noteq> uf_id doc"
      using deleted_in_flight_stays_away [OF reach flight later] .
    then have absent: "uf_id doc \<notin> uf_id ` set (uploadedFiles (the_manager w1))"
      by (auto simp: image_iff)
    have "the_manager w2 = processFile_resume N e doc r (the_manager w1)"
      using settle by (auto split: if_splits)
    then have same: "uploadedFiles (the_manager w2) = uploadedFiles (the_manager w1)"
      using resume_absent [OF absent] by simp
    show "uploadedFiles (the_manager w2) = uploadedFiles (the_manager w1) \<and>
      uf_id doc \<notin> uf_id ` set (uploadedFiles (the_manager w2))"
      using same absent by simp
  qed
  show ?thesis
    by (intro conjI c1 c2 c3 c4 c5 c6 c7 global)
qed

text \<open>The theorem at a concrete input.\<close>

theorem late_result_after_delete_is_discarded_witness:
  "uf_id sample_other_doc \<notin>
     uf_id ` set (uploadedFiles (deleteFile (uf_id sample_other_doc) sample_two)) \<and>
   uploadedFiles (processFile_resume sample_numerics (sample_env 9000) sample_other_doc
                    failure_call (deleteFile (uf_id sample_other_doc) sample_two)) =
     [sample_rejected_doc] \<and>
   0 < length (uploadedFiles sample_two) \<and>
   uf_id (uploadedFiles sample_two ! 0) \<noteq> uf_id sample_other_doc \<and>
   uploadedFiles (processFile_resume sample_numerics (sample_env 9000) sample_other_doc
                    failure_call sample_two) ! 0 = sample_rejected_doc \<and>
   map_option uf_id (selectedFile sample_two) = Some (uf_id sample_rejected_doc) \<and>
   selectedFile (deleteFile (uf_id sample_rejected_doc) sample_two) = None \<and>
   map_option uf_id (selectedFile sample_two) \<noteq> Some (uf_id sample_other_doc) \<and>
   selectedFile (deleteFile (uf_id sample_other_doc) sample_two) = Some sample_rejected_doc \<and>
   run sample_numerics [FileRead (sample_env 1000) sample_file] (initial_world []) =
     Some sample_uploaded \<and>
   sample_doc \<in> set (extracting sample_uploaded) \<and>
   run sample_numerics [DeleteClicked (uf_id sample_doc)] sample_uploaded = Some sample_deleted \<and>
   fire sample_numerics (ExtractionSettled sample_doc failure_call (sample_env 2000))
     sample_deleted = Some sample_late \<and>
   uploadedFiles (the_manager sample_late) = []"
proof -
  note race = late_result_after_delete_is_discarded
    [where N = sample_numerics and evs = "[FileRead (sample_env 1000) sample_file]"
       and ledger = "[]" and w = sample_uploaded and doc = sample_doc and evs' = "[]"
       and ?w1.0 = sample_deleted and r = failure_call and e = "sample_env 2000"
       and ?w2.0 = sample_late]
  note c8 = conjunct2 [OF conjunct2 [OF conjunct2 [OF conjunct2 [OF conjunct2 [OF conjunct2
    [OF conjunct2 [OF race]]]]]]]
  have r1: "run sample_numerics [FileRead (sample_env 1000) sample_file] (initial_world []) =
     Some sample_uploaded"
    by (rule run_sample_uploaded)
  have r2: "sample_doc \<in> set (extracting sample_uploaded)"
    by (simp add: sample_uploaded_def)
  have r3: "run sample_numerics [DeleteClicked (uf_id sample_doc)] sample_uploaded =
      Some sample_deleted"
    by (simp add: sample_deleted_def)
  have r4: "fire sample_numerics (ExtractionSettled sample_doc failure_call (sample_env 2000))
     sample_deleted = Some sample_late"
    by (simp add: sample_late_def sample_deleted_def sample_uploaded_def)
  have "uploadedFiles (the_manager sample_late) = uploadedFiles (the_manager sample_deleted)"
    using c8 r1 r2 r3 r4 by blast
  then have r5: "uploadedFiles (the_manager sample_late) = []"
    by (simp add: sample_deleted_def files_sample_uploaded)
  note fact = late_result_after_delete_is_discarded
    [where doc = sample_other_doc and s = sample_two and N = sample_numerics
       and e = "sample_env 9000" and r = "failure_call"
       and fileId_arg = "uf_id sample_rejected_doc"]
  note fact' = late_result_after_delete_is_discarded
    [where doc = sample_other_doc and s = sample_two and N = sample_numerics
       and e = "sample_env 9000" and r = "failure_call"
       and fileId_arg = "uf_id sample_other_doc"]
  note c2 = conjunct1 [OF conjunct2 [OF fact]]
  note c3 = conjunct1 [OF conjunct2 [OF conjunct2 [OF fact]]]
  note c5 = conjunct1 [OF conjunct2 [OF conjunct2 [OF conjunct2 [OF conjunct2 [OF fact]]]]]
  note c6 = conjunct1 [OF conjunct2 [OF conjunct2 [OF conjunct2 [OF conjunct2 [OF conjunct2 [OF fact]]]]]]
  note c7 = conjunct1 [OF conjunct2 [OF conjunct2 [OF conjunct2 [OF conjunct2 [OF conjunct2 [OF conjunct2 [OF fact']]]]]]]
  have ids: "uf_id sample_other_doc = ''7000k3j9x0q1z''" "uf_id sample_rejected_doc = ''1000k3j9x0q1z''"
    by (simp_all add: sample_other_doc_def sample_rejected_doc_def sample_doc_def newFile_def
        sample_env_def)
  have two: "uploadedFiles sample_two = [sample_rejected_doc, sample_other_doc]"
    "selectedFile sample_two = Some sample_rejected_doc"
    by (simp_all add: sample_two_def initial_manager_def)
  have deleted: "uploadedFiles (deleteFile (uf_id sample_other_doc) sample_two) = [sample_rejected_doc]"
    by (simp add: two ids)
  have gone: "uf_id sample_other_doc \<notin>
     uf_id ` set (uploadedFiles (deleteFile (uf_id sample_other_doc) sample_two))"
    using c3 [unfolded c2] .
  have discarded: "uploadedFiles (processFile_resume sample_numerics (sample_env 9000)
      sample_other_doc failure_call (deleteFile (uf_id sample_other_doc) sample_two)) =
     [sample_rejected_doc]"
    using c2 [unfolded deleted] .
  have pos: "0 < length (uploadedFiles sample_two)"
    by (simp add: two)
  have other: "uf_id (uploadedFiles sample_two ! 0) \<noteq> uf_id sample_other_doc"
    by (simp add: two ids)
  have "uploadedFiles (processFile_resume sample_numerics (sample_env 9000) sample_other_doc
                    failure_call sample_two) ! 0 = uploadedFiles sample_two ! 0"
    using c5 pos other by blast
  then have kept: "uploadedFiles (processFile_resume sample_numerics (sample_env 9000)
      sample_other_doc failure_call sample_two) ! 0 = sample_rejected_doc"
    by (simp add: two)
  have sel: "map_option uf_id (selectedFile sample_two) = Some (uf_id sample_rejected_doc)"
    by (simp add: two)
  have cleared: "selectedFile (deleteFile (uf_id sample_rejected_doc) sample_two) = None"
    using c6 sel by blast
  have nsel: "map_option uf_id (selectedFile sample_two) \<noteq> Some (uf_id sample_other_doc)"
    by (simp add: two ids)
  have "selectedFile (deleteFile (uf_id sample_other_doc) sample_two) = selectedFile sample_two"
    using c7 nsel by blast
  then have stays: "selectedFile (deleteFile (uf_id sample_other_doc) sample_two) =
      Some sample_rejected_doc"
    by (simp add: two)
  show ?thesis
    by (intro conjI gone discarded pos other kept sel cleared nsel stays r1 r2 r3 r4 r5)
qed

end
